theory Spec2Isabelle
  imports Main
begin

section \<open>Text model\<close>

text \<open>
  The two repair engines of tinyllm (\<^verbatim>\<open>src/parsers/json-parser.js\<close> and
  \<^verbatim>\<open>src/parsers/xml-parser.js\<close>) are pipelines of regular-expression rewrites and
  character scanners over a JavaScript string.  A text is modelled as a \<^typ>\<open>string\<close>,
  i.e. a list of characters with codes 0..255; every regular expression of the source is
  translated into a function that returns what the backtracking matcher of JavaScript
  returns for it.  The human-readable entries of the \<^verbatim>\<open>fixes\<close> arrays are template
  strings in the source; they are modelled by one constructor per template, carrying the
  values the template interpolates.
\<close>

definition code :: "char \<Rightarrow> nat" where
  "code c = of_char c"

definition is_digit :: "char \<Rightarrow> bool" where
  "is_digit c = (48 \<le> code c \<and> code c \<le> 57)"

definition is_alpha :: "char \<Rightarrow> bool" where
  "is_alpha c = ((97 \<le> code c \<and> code c \<le> 122) \<or> (65 \<le> code c \<and> code c \<le> 90))"

definition is_alnum :: "char \<Rightarrow> bool" where
  "is_alnum c = (is_alpha c \<or> is_digit c)"

text \<open>The class \<^verbatim>\<open>\s\<close> of JavaScript, and what \<^verbatim>\<open>trim\<close> strips, within codes
  0..255: tab, line feed, vertical tab, form feed, carriage return, space, no-break space.\<close>

definition is_space :: "char \<Rightarrow> bool" where
  "is_space c = (code c \<in> {9, 10, 11, 12, 13, 32, 160})"

text \<open>\<^verbatim>\<open>[a-zA-Z0-9:_-]\<close>, the tail of a tag name in the tag regex.\<close>

definition is_name_char :: "char \<Rightarrow> bool" where
  "is_name_char c = (is_alnum c \<or> c = CHR '':'' \<or> c = CHR ''_'' \<or> c = CHR ''-'')"

text \<open>\<^verbatim>\<open>[a-zA-Z0-9-_]\<close>, the tail of a name in the regexes that do not allow a colon.\<close>

definition is_name_char_nc :: "char \<Rightarrow> bool" where
  "is_name_char_nc c = (is_alnum c \<or> c = CHR ''-'' \<or> c = CHR ''_'')"

text \<open>\<^verbatim>\<open>[a-zA-Z-]\<close>, an attribute name in the attribute regexes.\<close>

definition is_attr_char :: "char \<Rightarrow> bool" where
  "is_attr_char c = (is_alpha c \<or> c = CHR ''-'')"

definition starts_with :: "string \<Rightarrow> string \<Rightarrow> bool" where
  "starts_with s p = (take (length p) s = p)"

definition ends_with :: "string \<Rightarrow> string \<Rightarrow> bool" where
  "ends_with s p = (length p \<le> length s \<and> drop (length s - length p) s = p)"

definition trim :: "string \<Rightarrow> string" where
  "trim s = rev (dropWhile is_space (rev (dropWhile is_space s)))"

text \<open>\<^verbatim>\<open>s.indexOf(p)\<close> as an option: the offset of the first occurrence.\<close>

fun index_of :: "string \<Rightarrow> string \<Rightarrow> nat option" where
  "index_of [] p = (if p = [] then Some 0 else None)"
| "index_of (c # cs) p =
     (if starts_with (c # cs) p then Some 0
      else (case index_of cs p of None \<Rightarrow> None | Some i \<Rightarrow> Some (Suc i)))"

definition str_includes :: "string \<Rightarrow> string \<Rightarrow> bool" where
  "str_includes s p = (index_of s p \<noteq> None)"

text \<open>The text after the first occurrence of \<^verbatim>\<open>p\<close> (the occurrence included in what
  is dropped), used by the lazy \<^verbatim>\<open>[\s\S]*?\<close> followed by a literal.\<close>

definition match_upto :: "string \<Rightarrow> string \<Rightarrow> nat option" where
  "match_upto s p = (case index_of s p of None \<Rightarrow> None | Some i \<Rightarrow> Some (i + length p))"

subsection \<open>Global regular-expression loops\<close>

text \<open>
  A matcher gets the text from the current position on and returns the length of the
  match that starts there, with a payload.  No regular expression of the two engines
  matches the empty string or looks behind, so the loop of \<^verbatim>\<open>regex.exec\<close> with the
  \<^verbatim>\<open>g\<close> flag, and of \<^verbatim>\<open>replace\<close>, is: try at the position; on a match
  resume right after it, otherwise one character later.
\<close>

fun exec_all :: "(string \<Rightarrow> (nat \<times> 'a) option) \<Rightarrow> nat \<Rightarrow> string \<Rightarrow> (nat \<times> nat \<times> 'a) list" where
  "exec_all m i [] = []"
| "exec_all m i (c # cs) =
     (case m (c # cs) of
        None \<Rightarrow> exec_all m (Suc i) cs
      | Some (n, a) \<Rightarrow> (i, n, a) # exec_all m (i + n) (drop (n - 1) cs))"

fun replace_all :: "(string \<Rightarrow> (nat \<times> string) option) \<Rightarrow> string \<Rightarrow> string" where
  "replace_all m [] = []"
| "replace_all m (c # cs) =
     (case m (c # cs) of
        None \<Rightarrow> c # replace_all m cs
      | Some (n, r) \<Rightarrow> r @ replace_all m (drop (n - 1) cs))"

text \<open>\<^verbatim>\<open>regex.test(s)\<close>: is there a match anywhere.\<close>

fun test_any :: "(string \<Rightarrow> bool) \<Rightarrow> string \<Rightarrow> bool" where
  "test_any m [] = m []"
| "test_any m (c # cs) = (m (c # cs) \<or> test_any m cs)"

subsection \<open>Processing instructions, comments, CDATA\<close>

text \<open>\<^verbatim>\<open>/<\?[^?]*\?>/\<close>: after \<^verbatim>\<open><?\<close> the run of characters other than
  \<^verbatim>\<open>?\<close> must be followed by \<^verbatim>\<open>?>\<close>.\<close>

definition pi_match :: "string \<Rightarrow> nat option" where
  "pi_match s =
     (if starts_with s ''<?'' then
        (let body = takeWhile (\<lambda>c. c \<noteq> CHR ''?'') (drop 2 s);
             rest = dropWhile (\<lambda>c. c \<noteq> CHR ''?'') (drop 2 s)
         in if starts_with rest ''?>'' then Some (2 + length body + 2) else None)
      else None)"

text \<open>\<^verbatim>\<open>/<!--[\s\S]*?-->/\<close>\<close>

definition comment_match :: "string \<Rightarrow> nat option" where
  "comment_match s =
     (if starts_with s ''<!--'' then
        (case match_upto (drop 4 s) ''-->'' of None \<Rightarrow> None | Some n \<Rightarrow> Some (4 + n))
      else None)"

text \<open>\<^verbatim>\<open>/<!\[CDATA\[[\s\S]*?\]\]>/\<close>\<close>

definition cdata_match :: "string \<Rightarrow> nat option" where
  "cdata_match s =
     (if starts_with s ''<![CDATA['' then
        (case match_upto (drop 9 s) '']]>'' of None \<Rightarrow> None | Some n \<Rightarrow> Some (9 + n))
      else None)"

definition erase :: "(string \<Rightarrow> nat option) \<Rightarrow> string \<Rightarrow> (nat \<times> string) option" where
  "erase m s = (case m s of None \<Rightarrow> None | Some n \<Rightarrow> Some (n, []))"

definition strip_pis :: "string \<Rightarrow> string" where
  "strip_pis s = replace_all (erase pi_match) s"

definition strip_comments :: "string \<Rightarrow> string" where
  "strip_comments s = replace_all (erase comment_match) s"

definition strip_cdata :: "string \<Rightarrow> string" where
  "strip_cdata s = replace_all (erase cdata_match) s"

subsection \<open>Tag tokenization\<close>

text \<open>
  \<^verbatim>\<open>/<\/?([a-zA-Z][a-zA-Z0-9:_-]*)[^>]*>/g\<close>.  The name is the longest run of name
  characters: a shorter one would not help the rest, which only needs a \<^verbatim>\<open>>\<close>
  somewhere later.  The payload is the captured name.
\<close>

definition tag_match :: "string \<Rightarrow> (nat \<times> string) option" where
  "tag_match s =
     (case s of
        [] \<Rightarrow> None
      | c0 # r0 \<Rightarrow>
          if c0 \<noteq> CHR ''<'' then None
          else
            (let slash = (case r0 of [] \<Rightarrow> False | c1 # _ \<Rightarrow> c1 = CHR ''/'');
                 r1 = (if slash then tl r0 else r0)
             in (case r1 of
                   [] \<Rightarrow> None
                 | c2 # r2 \<Rightarrow>
                     if \<not> is_alpha c2 then None
                     else
                       (let name = c2 # takeWhile is_name_char r2;
                            after_name = dropWhile is_name_char r2;
                            attrs = takeWhile (\<lambda>c. c \<noteq> CHR ''>'') after_name;
                            rest = dropWhile (\<lambda>c. c \<noteq> CHR ''>'') after_name
                        in if rest = [] then None
                           else Some (1 + (if slash then 1 else 0) + length name
                                        + length attrs + 1, name)))))"

record tag =
  tname :: string
  fullTag :: string
  tpos :: nat
  isClosing :: bool
  isSelfClosing :: bool

definition mk_tag :: "string \<Rightarrow> nat \<times> nat \<times> string \<Rightarrow> tag" where
  "mk_tag s m =
     (case m of (i, n, nm) \<Rightarrow>
        (let ft = take n (drop i s)
         in \<lparr>tname = nm, fullTag = ft, tpos = i,
             isClosing = starts_with ft ''</'', isSelfClosing = ends_with ft ''/>''\<rparr>))"

definition scan_tags :: "string \<Rightarrow> tag list" where
  "scan_tags s = map (mk_tag s) (exec_all tag_match 0 s)"

section \<open>The XML engine\<close>

datatype xml_error =
    UnmatchedClosingTag string
  | MismatchedTags string string
  | UnclosedTag string
  | InvalidTagName
  | TextBeforeRoot
  | MultipleRoots "string list"
  | MissingOpeningTag

subsection \<open>\<^verbatim>\<open>_validateXMLStructure\<close>, the parse of the engine outside a browser\<close>

record parse_result =
  p_success :: bool
  p_data :: "string option"
  p_errors :: "xml_error list"

text \<open>The loop body over one tag: the state is the tag stack (top last, as the array of
  the source) and the errors so far.\<close>

definition validate_step :: "string list \<times> xml_error list \<Rightarrow> tag \<Rightarrow> string list \<times> xml_error list" where
  "validate_step st t =
     (case st of (stack, errs) \<Rightarrow>
        if isClosing t then
          (if stack = [] then (stack, errs @ [UnmatchedClosingTag (tname t)])
           else (butlast stack,
                 if last stack \<noteq> tname t then errs @ [MismatchedTags (last stack) (tname t)]
                 else errs))
        else if \<not> isSelfClosing t then (stack @ [tname t], errs)
        else (stack, errs))"

definition validateXMLStructure :: "string \<Rightarrow> parse_result" where
  "validateXMLStructure xmlString =
     (let cleanXml = strip_cdata (strip_comments (strip_pis xmlString));
          st = foldl validate_step ([], []) (scan_tags cleanXml);
          errors = snd st @ map UnclosedTag (fst st)
      in \<lparr>p_success = (errors = []),
          p_data = (if errors = [] then Some xmlString else None),
          p_errors = errors\<rparr>)"

text \<open>\<^verbatim>\<open>parse\<close> uses the browser's \<^verbatim>\<open>DOMParser\<close> when there is one and the
  structure check above otherwise; the model is the engine's own check.\<close>

definition xml_parse :: "string \<Rightarrow> parse_result" where
  "xml_parse xmlString = validateXMLStructure xmlString"

subsection \<open>\<^verbatim>\<open>_detectCriticalErrors\<close>\<close>

text \<open>\<^verbatim>\<open>trimmed.replace(/^<\?xml[^?]*\?>\s*/, '')\<close>\<close>

definition remove_decl :: "string \<Rightarrow> string" where
  "remove_decl s =
     (if starts_with s ''<?xml'' then
        (let rest = dropWhile (\<lambda>c. c \<noteq> CHR ''?'') (drop 5 s)
         in if starts_with rest ''?>'' then dropWhile is_space (drop 2 rest) else s)
      else s)"

text \<open>
  \<^verbatim>\<open>/<([a-zA-Z][a-zA-Z0-9-_]*)\s+([a-zA-Z][a-zA-Z0-9-_]*)[^=]/\<close> at one position.
  Both names and the white space are the longest runs; the second name may give back
  all but its first letter, so the regex matches exactly when the letter that starts the
  second name is followed by some character other than \<^verbatim>\<open>=\<close>.
\<close>

definition tag_with_space_at :: "string \<Rightarrow> bool" where
  "tag_with_space_at s =
     (case s of
        c0 # c1 # r \<Rightarrow>
          c0 = CHR ''<'' \<and> is_alpha c1 \<and>
          (let r1 = dropWhile is_name_char_nc r;
               r2 = dropWhile is_space r1
           in takeWhile is_space r1 \<noteq> [] \<and>
              (case r2 of l # d # _ \<Rightarrow> is_alpha l \<and> d \<noteq> CHR ''='' | _ \<Rightarrow> False))
      | _ \<Rightarrow> False)"

text \<open>\<^verbatim>\<open>/<[^>]+=/\<close> at one position: an \<^verbatim>\<open>=\<close> in the run of characters
  other than \<^verbatim>\<open>>\<close> after the \<^verbatim>\<open><\<close>, not as its first character.\<close>

definition attr_eq_at :: "string \<Rightarrow> bool" where
  "attr_eq_at s =
     (case s of
        c0 # r \<Rightarrow> c0 = CHR ''<'' \<and> CHR ''='' \<in> set (tl (takeWhile (\<lambda>c. c \<noteq> CHR ''>'') r))
      | [] \<Rightarrow> False)"

text \<open>\<^verbatim>\<open>/<([a-zA-Z][a-zA-Z0-9:_-]*)/\<close> at one position, and the index of the first
  match (\<^verbatim>\<open>firstTagMatch.index\<close>).\<close>

definition open_tag_at :: "string \<Rightarrow> bool" where
  "open_tag_at s = (case s of c0 # c1 # _ \<Rightarrow> c0 = CHR ''<'' \<and> is_alpha c1 | _ \<Rightarrow> False)"

fun first_index :: "(string \<Rightarrow> bool) \<Rightarrow> string \<Rightarrow> nat option" where
  "first_index m [] = None"
| "first_index m (c # cs) =
     (if m (c # cs) then Some 0
      else (case first_index m cs of None \<Rightarrow> None | Some i \<Rightarrow> Some (Suc i)))"

text \<open>The depth counter of the root count; it is a JavaScript number and goes below zero
  on a closing tag at depth 0.\<close>

definition root_step :: "string list \<times> int \<Rightarrow> tag \<Rightarrow> string list \<times> int" where
  "root_step st t =
     (case st of (rootMatches, depth) \<Rightarrow>
        if \<not> isClosing t \<and> \<not> isSelfClosing t then
          ((if depth = 0 then rootMatches @ [tname t] else rootMatches), depth + 1)
        else if isClosing t then (rootMatches, depth - 1)
        else (rootMatches, depth))"

definition without_decl :: "string \<Rightarrow> string" where
  "without_decl xmlString = remove_decl (trim xmlString)"

text \<open>Check 1: a tag name with a space, and no attribute anywhere.\<close>

definition has_tag_with_space :: "string \<Rightarrow> bool" where
  "has_tag_with_space xmlString =
     (let withoutDecl = without_decl xmlString
      in test_any tag_with_space_at withoutDecl \<and> \<not> test_any attr_eq_at withoutDecl)"

text \<open>Check 2: text before the first tag, processing instructions and comments apart.\<close>

definition has_text_before_root :: "string \<Rightarrow> bool" where
  "has_text_before_root xmlString =
     (let withoutDecl = without_decl xmlString
      in (case first_index open_tag_at withoutDecl of
            None \<Rightarrow> False
          | Some i \<Rightarrow>
              (let beforeFirstTag = trim (take i withoutDecl);
                   withoutAllowed = trim (strip_comments (strip_pis beforeFirstTag))
               in length withoutAllowed > 0)))"

text \<open>Check 3: the names of the opening tags met at depth 0.\<close>

definition root_matches :: "string \<Rightarrow> string list" where
  "root_matches xmlString =
     (let cleaned = strip_cdata (strip_comments (strip_pis (without_decl xmlString)))
      in fst (foldl root_step ([], 0) (scan_tags cleaned)))"

definition has_multiple_roots :: "string \<Rightarrow> bool" where
  "has_multiple_roots xmlString = (length (root_matches xmlString) > 1)"

text \<open>Check 4: \<^verbatim>\<open>/^\s*<\//\<close>, or no \<^verbatim>\<open>/<[a-zA-Z0-9]/\<close> and some
  \<^verbatim>\<open>/<\//\<close>.\<close>

definition open_or_digit_at :: "string \<Rightarrow> bool" where
  "open_or_digit_at s = (case s of c0 # c1 # _ \<Rightarrow> c0 = CHR ''<'' \<and> is_alnum c1 | _ \<Rightarrow> False)"

definition has_missing_opening_tag :: "string \<Rightarrow> bool" where
  "has_missing_opening_tag xmlString =
     (let withoutDecl = without_decl xmlString;
          startsWithClosing = starts_with (dropWhile is_space withoutDecl) ''</'';
          hasNoOpeningTag = (\<not> test_any open_or_digit_at withoutDecl
                             \<and> str_includes withoutDecl ''</'')
      in startsWithClosing \<or> hasNoOpeningTag)"

definition detectCriticalErrors :: "string \<Rightarrow> xml_error list" where
  "detectCriticalErrors xmlString =
     (if has_tag_with_space xmlString then [InvalidTagName] else []) @
     (if has_text_before_root xmlString then [TextBeforeRoot] else []) @
     (if has_multiple_roots xmlString then [MultipleRoots (root_matches xmlString)] else []) @
     (if has_missing_opening_tag xmlString then [MissingOpeningTag] else [])"

subsection \<open>Two pre-flight conditions in the words of the specification\<close>

text \<open>
  The specification names the conditions of the pre-flight check in words.  Two of them
  are written out here from those words, to be compared with the checks of the source
  above; they use the same trimmed text without its declaration, the same removal of
  processing instructions, comments and CDATA, and the same tag scan.

  ``More than one top-level (depth-0) element exists'': the elements that start at depth
  0, an element being opened by an opening tag or made by a self-closing tag.
\<close>

definition spec_root_step :: "string list \<times> int \<Rightarrow> tag \<Rightarrow> string list \<times> int" where
  "spec_root_step st t =
     (case st of (elements, depth) \<Rightarrow>
        if isClosing t then (elements, depth - 1)
        else if isSelfClosing t then
          ((if depth = 0 then elements @ [tname t] else elements), depth)
        else ((if depth = 0 then elements @ [tname t] else elements), depth + 1))"

definition spec_top_level_elements :: "string \<Rightarrow> string list" where
  "spec_top_level_elements xmlString =
     fst (foldl spec_root_step ([], 0)
            (scan_tags (strip_cdata (strip_comments (strip_pis (without_decl xmlString))))))"

text \<open>``Non-whitespace, non-comment, non-PI text precedes the first tag'': with
  processing instructions and comments removed, there is a \<^verbatim>\<open><\<close> and what stands
  before the first one is not all white space.\<close>

definition spec_text_before_first_tag :: "string \<Rightarrow> bool" where
  "spec_text_before_first_tag xmlString =
     (let body = strip_comments (strip_pis (without_decl xmlString))
      in dropWhile (\<lambda>c. c \<noteq> CHR ''<'') body \<noteq> []
         \<and> trim (takeWhile (\<lambda>c. c \<noteq> CHR ''<'') body) \<noteq> [])"

subsection \<open>\<^verbatim>\<open>_levenshteinDistance\<close> and \<^verbatim>\<open>_isSimilarTag\<close>\<close>

text \<open>
  The source fills a table \<^verbatim>\<open>dp\<close> of \<open>m + 1\<close> rows and \<open>n + 1\<close> columns, row by
  row and left to right.  \<open>lev_row c t prev left\<close> fills the cells of one row from
  column \<open>j\<close> on: \<open>c\<close> is \<^verbatim>\<open>str1[i - 1]\<close>, \<open>t\<close> is \<^verbatim>\<open>str2\<close> from index
  \<open>j - 1\<close> on, \<open>prev\<close> is the row above from column \<open>j - 1\<close> on and \<open>left\<close> is
  \<^verbatim>\<open>dp[i][j - 1]\<close>.
\<close>

fun lev_row :: "char \<Rightarrow> string \<Rightarrow> nat list \<Rightarrow> nat \<Rightarrow> nat list" where
  "lev_row c (d # ds) (diag # up # prev) left =
     (let v = (if c = d then diag else min (up + 1) (min (left + 1) (diag + 1)))
      in v # lev_row c ds (up # prev) v)"
| "lev_row c ds prev left = []"

definition next_row :: "string \<Rightarrow> nat list \<Rightarrow> nat \<times> char \<Rightarrow> nat list" where
  "next_row str2 prev ic = fst ic # lev_row (snd ic) str2 prev (fst ic)"

definition lev_table :: "string \<Rightarrow> string \<Rightarrow> nat list" where
  "lev_table str1 str2 =
     foldl (next_row str2) [0..<Suc (length str2)] (zip [1..<Suc (length str1)] str1)"

definition levenshteinDistance :: "string \<Rightarrow> string \<Rightarrow> nat" where
  "levenshteinDistance str1 str2 = last (lev_table str1 str2)"

text \<open>The recurrence the table implements, cell by cell.\<close>

fun lev_cell :: "string \<Rightarrow> string \<Rightarrow> nat \<Rightarrow> nat \<Rightarrow> nat" where
  "lev_cell s t 0 j = j"
| "lev_cell s t (Suc i) 0 = Suc i"
| "lev_cell s t (Suc i) (Suc j) =
     (if s ! i = t ! j then lev_cell s t i j
      else min (lev_cell s t i (Suc j) + 1)
               (min (lev_cell s t (Suc i) j + 1) (lev_cell s t i j + 1)))"

text \<open>
  \<^verbatim>\<open>new RegExp(`^${escape(base)}[0-9]+$`).test(s)\<close>: the escape makes every
  character of \<open>base\<close> literal, and without the \<^verbatim>\<open>m\<close> flag the anchors are the two
  ends of \<open>s\<close>.
\<close>

definition numeric_suffix :: "string \<Rightarrow> string \<Rightarrow> bool" where
  "numeric_suffix base s =
     (starts_with s base \<and> drop (length base) s \<noteq> [] \<and> list_all is_digit (drop (length base) s))"

definition plural_pair :: "string \<Rightarrow> string \<Rightarrow> bool" where
  "plural_pair expected actual = (expected @ ''s'' = actual \<or> expected = actual @ ''s'')"

definition isSimilarTag :: "string \<Rightarrow> string \<Rightarrow> bool" where
  "isSimilarTag expected actual =
     (if expected = actual then True
      else if plural_pair expected actual then False
      else if numeric_suffix expected actual then True
      else if numeric_suffix actual expected then True
      else levenshteinDistance expected actual \<le> 1)"

subsection \<open>\<^verbatim>\<open>_fixMismatchedTags\<close>\<close>

datatype xml_note =
    AddedXMLDeclaration
  | FixedMismatchedTag string string
  | FixedUnclosedTags nat "string list"
  | FixedUnclosedAttributeQuotes
  | FixedMissingEquals
  | EscapedSpecialCharacters
  | AddedQuotesToAttributes
  | FixedInvalidTagNames
  | RemovedUnmatchedClosingTag string
  | FixedMismatchedTags string string

text \<open>\<open>FixedMismatchedTag found expected\<close> is
  \<^verbatim>\<open>Fixed mismatched tag: </found> -> </expected>\<close>; \<open>FixedUnclosedTags n names\<close> is
  \<^verbatim>\<open>Fixed n unclosed tag(s): names\<close>; \<open>FixedMismatchedTags expected found\<close> is
  \<^verbatim>\<open>Fixed mismatched tags: expected </expected>, found </found>\<close>.\<close>

record replacement =
  r_position :: nat
  oldTag :: string
  newTag :: string
  r_original :: string
  r_corrected :: string

definition ranges_of :: "(string \<Rightarrow> nat option) \<Rightarrow> string \<Rightarrow> (nat \<times> nat) list" where
  "ranges_of m s =
     map (\<lambda>(i, n, u). (i, i + n)) (exec_all (\<lambda>t. map_option (\<lambda>n. (n, ())) (m t)) 0 s)"

definition skipRanges :: "string \<Rightarrow> (nat \<times> nat) list" where
  "skipRanges s = ranges_of cdata_match s @ ranges_of comment_match s @ ranges_of pi_match s"

definition shouldSkip :: "(nat \<times> nat) list \<Rightarrow> nat \<Rightarrow> bool" where
  "shouldSkip ranges pos = list_ex (\<lambda>(a, b). a \<le> pos \<and> pos < b) ranges"

type_synonym mismatch_state = "(string \<times> nat) list \<times> xml_note list \<times> replacement list"

definition mismatch_step :: "(nat \<times> nat) list \<Rightarrow> mismatch_state \<Rightarrow> tag \<Rightarrow> mismatch_state" where
  "mismatch_step ranges st t =
     (case st of (tagStack, fixes, replacements) \<Rightarrow>
        if shouldSkip ranges (tpos t) then st
        else if starts_with (tname t) ''?'' \<or> starts_with (tname t) ''!'' then st
        else if isClosing t then
          (if tagStack \<noteq> [] then
             (let expected = last tagStack
              in if fst expected \<noteq> tname t then
                   (if isSimilarTag (fst expected) (tname t) then
                      (butlast tagStack,
                       fixes @ [FixedMismatchedTag (tname t) (fst expected)],
                       replacements @
                         [\<lparr>r_position = tpos t, oldTag = fullTag t,
                           newTag = ''</'' @ fst expected @ ''>'',
                           r_original = tname t, r_corrected = fst expected\<rparr>])
                    else st)
                 else (butlast tagStack, fixes, replacements))
           else st)
        else if \<not> isSelfClosing t then (tagStack @ [(tname t, tpos t)], fixes, replacements)
        else st)"

definition mismatch_scan :: "string \<Rightarrow> mismatch_state" where
  "mismatch_scan xmlString =
     foldl (mismatch_step (skipRanges xmlString)) ([], [], []) (scan_tags xmlString)"

definition apply_replacement :: "string \<Rightarrow> replacement \<Rightarrow> string" where
  "apply_replacement result rep =
     take (r_position rep) result @ newTag rep @
     drop (r_position rep + length (oldTag rep)) result"

text \<open>The replacements are applied from the last one to the first.\<close>

definition fixMismatchedTags :: "string \<Rightarrow> string \<times> xml_note list" where
  "fixMismatchedTags xmlString =
     (case mismatch_scan xmlString of (tagStack, fixes, replacements) \<Rightarrow>
        (foldl apply_replacement xmlString (rev replacements), fixes))"

text \<open>The \<^verbatim>\<open>replacements\<close> array at the end of the scan.\<close>

definition mismatch_replacements :: "string \<Rightarrow> replacement list" where
  "mismatch_replacements xmlString = snd (snd (mismatch_scan xmlString))"

text \<open>What every recorded replacement satisfies: it was let through by the similarity
  test on two different names, and it writes the closing tag of the expected name.\<close>

definition sound_replacement :: "replacement \<Rightarrow> bool" where
  "sound_replacement rep =
     (isSimilarTag (r_corrected rep) (r_original rep) \<and> r_corrected rep \<noteq> r_original rep
      \<and> newTag rep = ''</'' @ r_corrected rep @ ''>'')"

subsection \<open>\<^verbatim>\<open>_fixUnclosedTags\<close>\<close>

type_synonym insertion = "nat \<times> string"

type_synonym unclosed_state = "(string \<times> nat) list \<times> insertion list"

text \<open>\<^verbatim>\<open>names.lastIndexOf(name)\<close>, \<open>None\<close> for -1.\<close>

fun last_index_of :: "string list \<Rightarrow> string \<Rightarrow> nat option" where
  "last_index_of [] x = None"
| "last_index_of (y # ys) x =
     (case last_index_of ys x of
        Some i \<Rightarrow> Some (Suc i)
      | None \<Rightarrow> if y = x then Some 0 else None)"

text \<open>The loop \<^verbatim>\<open>while (tagStack.length > indexInStack)\<close>: pop, and record a closing
  tag for what was popped at the position of the closing tag being processed.\<close>

function pop_down_to :: "nat \<Rightarrow> nat \<Rightarrow> unclosed_state \<Rightarrow> unclosed_state" where
  "pop_down_to indexInStack pos st =
     (case st of (tagStack, insertions) \<Rightarrow>
        if length tagStack > indexInStack then
          pop_down_to indexInStack pos
            (butlast tagStack, insertions @ [(pos, ''</'' @ fst (last tagStack) @ ''>'')])
        else st)"
  by pat_completeness auto
termination
  by (relation "measure (\<lambda>(i, p, st). length (fst st))") auto

text \<open>\<^verbatim>\<open>tagStack.pop()\<close> on an empty array returns \<^verbatim>\<open>undefined\<close> and leaves it
  empty, as \<^const>\<open>butlast\<close> does.\<close>

definition unclosed_step :: "unclosed_state \<Rightarrow> tag \<Rightarrow> unclosed_state" where
  "unclosed_step st t =
     (case st of (tagStack, insertions) \<Rightarrow>
        if isClosing t then
          (if tagStack \<noteq> [] then
             (if fst (last tagStack) = tname t then (butlast tagStack, insertions)
              else
                (case last_index_of (map fst tagStack) (tname t) of
                   Some indexInStack \<Rightarrow>
                     (case pop_down_to indexInStack (tpos t) st of
                        (tagStack', insertions') \<Rightarrow> (butlast tagStack', insertions'))
                 | None \<Rightarrow> st))
           else st)
        else if \<not> isSelfClosing t then (tagStack @ [(tname t, tpos t)], insertions)
        else st)"

text \<open>The tags of \<^verbatim>\<open>_fixUnclosedTags\<close>: every match of the tag regex on the text as it
  is, except those whose captured name starts with \<^verbatim>\<open>?\<close> or \<^verbatim>\<open>!\<close>.\<close>

definition unclosed_tags_of :: "string \<Rightarrow> tag list" where
  "unclosed_tags_of xmlString =
     filter (\<lambda>t. \<not> (starts_with (tname t) ''?'' \<or> starts_with (tname t) ''!''))
       (scan_tags xmlString)"

definition unclosed_insertions :: "string \<Rightarrow> insertion list" where
  "unclosed_insertions xmlString =
     (case foldl unclosed_step ([], []) (unclosed_tags_of xmlString) of
        (tagStack, insertions) \<Rightarrow>
          insertions @ map (\<lambda>t. (length xmlString, ''</'' @ fst t @ ''>'')) (rev tagStack))"

text \<open>\<^verbatim>\<open>insertions.sort((a, b) => b.position - a.position)\<close>: a stable sort by
  descending position.\<close>

definition sort_insertions :: "insertion list \<Rightarrow> insertion list" where
  "sort_insertions ins = sort_key (\<lambda>i. - int (fst i)) ins"

definition apply_insertion :: "string \<Rightarrow> insertion \<Rightarrow> string" where
  "apply_insertion fixedXml ins =
     take (fst ins) fixedXml @ snd ins @ ''\<newline>'' @ drop (fst ins) fixedXml"

text \<open>\<^verbatim>\<open>ins.tag.match(/<\/(.*)>/)[1]\<close> on a tag \<^verbatim>\<open></name>\<close> built above: the
  name, which has neither a \<^verbatim>\<open>>\<close> nor a line terminator.\<close>

definition inserted_name :: "insertion \<Rightarrow> string" where
  "inserted_name ins = butlast (drop 2 (snd ins))"

definition fixUnclosedTags :: "string \<Rightarrow> string list \<times> string" where
  "fixUnclosedTags xmlString =
     (let insertions = sort_insertions (unclosed_insertions xmlString)
      in (map inserted_name insertions, foldl apply_insertion xmlString insertions))"

subsection \<open>The attribute rewrites of \<^verbatim>\<open>fix\<close>\<close>

definition dq :: char where
  "dq = CHR 0x22"

text \<open>
  Fix 4, \<^verbatim>\<open>/(\s[a-zA-Z-]+)="([^"]*>)/g\<close> with its callback.  The second group is the
  run of characters other than the double quote, cut after its last \<^verbatim>\<open>>\<close>; the
  callback closes the quote before the first \<^verbatim>\<open>>\<close> of the group
  (\<^verbatim>\<open>value.replace('>', '">')\<close>).
\<close>

definition upto_last_gt :: "string \<Rightarrow> string" where
  "upto_last_gt run = rev (dropWhile (\<lambda>c. c \<noteq> CHR ''>'') (rev run))"

fun close_quote_at_gt :: "string \<Rightarrow> string" where
  "close_quote_at_gt [] = []"
| "close_quote_at_gt (c # cs) =
     (if c = CHR ''>'' then dq # CHR ''>'' # cs else c # close_quote_at_gt cs)"

definition unclosed_quote_match :: "string \<Rightarrow> (nat \<times> string) option" where
  "unclosed_quote_match s =
     (case s of
        [] \<Rightarrow> None
      | w # r \<Rightarrow>
          if \<not> is_space w then None
          else
            (let nm = takeWhile is_attr_char r;
                 r1 = dropWhile is_attr_char r
             in if nm = [] \<or> \<not> starts_with r1 [CHR ''='', dq] then None
                else
                  (let val = upto_last_gt (takeWhile (\<lambda>c. c \<noteq> dq) (drop 2 r1))
                   in if val = [] then None
                      else Some (1 + length nm + 2 + length val,
                                 if CHR ''>'' \<in> set val
                                 then w # nm @ [CHR ''='', dq] @ close_quote_at_gt val
                                 else w # nm @ [CHR ''='', dq] @ val))))"

text \<open>The greedy \<^verbatim>\<open>[^>]*\<close> (or \<^verbatim>\<open>[^>]+\<close>) after a \<^verbatim>\<open><\<close> gives characters
  back one at a time: the first split that lets the rest match, from the longest down.\<close>

fun try_down :: "(nat \<Rightarrow> 'a option) \<Rightarrow> nat \<Rightarrow> 'a option" where
  "try_down f 0 = f 0"
| "try_down f (Suc k) = (case f (Suc k) of Some x \<Rightarrow> Some x | None \<Rightarrow> try_down f k)"

text \<open>Fix 5, \<^verbatim>\<open>/(<[^>]*\s+)([a-zA-Z-]+)\s+"([^"]*)"/g\<close> replaced by
  \<^verbatim>\<open>$1$2="$3"\<close>.  The tail is what follows the split: white space, a name, white
  space, a quoted value.\<close>

definition missing_equals_tail :: "string \<Rightarrow> (nat \<times> string) option" where
  "missing_equals_tail t =
     (let ws1 = takeWhile is_space t; t1 = dropWhile is_space t;
          nm = takeWhile is_attr_char t1; t2 = dropWhile is_attr_char t1;
          ws2 = takeWhile is_space t2; t3 = dropWhile is_space t2
      in if ws1 = [] \<or> nm = [] \<or> ws2 = [] then None
         else
           (case t3 of
              [] \<Rightarrow> None
            | q # t4 \<Rightarrow>
                if q \<noteq> dq then None
                else
                  (let content = takeWhile (\<lambda>c. c \<noteq> dq) t4
                   in if dropWhile (\<lambda>c. c \<noteq> dq) t4 = [] then None
                      else Some (length ws1 + length nm + length ws2 + 1 + length content + 1,
                                 ws1 @ nm @ [CHR ''='', dq] @ content @ [dq]))))"

definition missing_equals_match :: "string \<Rightarrow> (nat \<times> string) option" where
  "missing_equals_match s =
     (case s of
        [] \<Rightarrow> None
      | c0 # r \<Rightarrow>
          if c0 \<noteq> CHR ''<'' then None
          else try_down
                 (\<lambda>k. map_option (\<lambda>(n, rep). (1 + k + n, CHR ''<'' # take k r @ rep))
                         (missing_equals_tail (drop k r)))
                 (length (takeWhile (\<lambda>c. c \<noteq> CHR ''>'') r)))"

text \<open>Fix 7, \<^verbatim>\<open>/(<[^>]+\s+)([a-zA-Z-]+)=([^"\s>]+)(?=[\s>])/g\<close> replaced by
  \<^verbatim>\<open>$1$2="$3"\<close>.\<close>

definition attr_quote_tail :: "string \<Rightarrow> (nat \<times> string) option" where
  "attr_quote_tail t =
     (let ws1 = takeWhile is_space t; t1 = dropWhile is_space t;
          nm = takeWhile is_attr_char t1; t2 = dropWhile is_attr_char t1
      in if ws1 = [] \<or> nm = [] then None
         else
           (case t2 of
              [] \<Rightarrow> None
            | e # t3 \<Rightarrow>
                if e \<noteq> CHR ''='' then None
                else
                  (let val = takeWhile (\<lambda>c. c \<noteq> dq \<and> \<not> is_space c \<and> c \<noteq> CHR ''>'') t3;
                       after = dropWhile (\<lambda>c. c \<noteq> dq \<and> \<not> is_space c \<and> c \<noteq> CHR ''>'') t3
                   in if val = [] then None
                      else
                        (case after of
                           [] \<Rightarrow> None
                         | a # _ \<Rightarrow>
                             if is_space a \<or> a = CHR ''>''
                             then Some (length ws1 + length nm + 1 + length val,
                                        ws1 @ nm @ [CHR ''='', dq] @ val @ [dq])
                             else None))))"

definition attr_quote_match :: "string \<Rightarrow> (nat \<times> string) option" where
  "attr_quote_match s =
     (case s of
        [] \<Rightarrow> None
      | c0 # r \<Rightarrow>
          if c0 \<noteq> CHR ''<'' then None
          else try_down
                 (\<lambda>k. if k = 0 then None
                      else map_option (\<lambda>(n, rep). (1 + k + n, CHR ''<'' # take k r @ rep))
                             (attr_quote_tail (drop k r)))
                 (length (takeWhile (\<lambda>c. c \<noteq> CHR ''>'') r)))"

text \<open>Fix 8, \<^verbatim>\<open>/<([0-9][a-zA-Z0-9-_]*)/g\<close> and \<^verbatim>\<open>/<\/([0-9][a-zA-Z0-9-_]*)/g\<close>.\<close>

definition invalid_open_match :: "string \<Rightarrow> (nat \<times> string) option" where
  "invalid_open_match s =
     (case s of
        c0 # c1 # r \<Rightarrow>
          if c0 = CHR ''<'' \<and> is_digit c1
          then (let nm = c1 # takeWhile is_name_char_nc r in Some (1 + length nm, ''<tag'' @ nm))
          else None
      | _ \<Rightarrow> None)"

definition invalid_close_match :: "string \<Rightarrow> (nat \<times> string) option" where
  "invalid_close_match s =
     (case s of
        c0 # c1 # c2 # r \<Rightarrow>
          if c0 = CHR ''<'' \<and> c1 = CHR ''/'' \<and> is_digit c2
          then (let nm = c2 # takeWhile is_name_char_nc r in Some (2 + length nm, ''</tag'' @ nm))
          else None
      | _ \<Rightarrow> None)"

subsection \<open>\<^verbatim>\<open>_escapeSpecialChars\<close>\<close>

fun show_digits :: "nat \<Rightarrow> nat \<Rightarrow> string" where
  "show_digits 0 n = []"
| "show_digits (Suc fuel) n =
     (if n < 10 then [char_of (48 + n)]
      else show_digits fuel (n div 10) @ [char_of (48 + n mod 10)])"

text \<open>The decimal digits of a number; a number has at most as many digits as its value
  plus one.\<close>

definition show_nat :: "nat \<Rightarrow> string" where
  "show_nat n = show_digits (Suc n) n"

definition placeholder :: "nat \<Rightarrow> string" where
  "placeholder i = ''__CDATA_PLACEHOLDER_'' @ show_nat i @ ''__''"

fun replace_indexed :: "(string \<Rightarrow> nat option) \<Rightarrow> (nat \<Rightarrow> string) \<Rightarrow> nat \<Rightarrow> string \<Rightarrow> string" where
  "replace_indexed m f k [] = []"
| "replace_indexed m f k (c # cs) =
     (case m (c # cs) of
        None \<Rightarrow> c # replace_indexed m f k cs
      | Some n \<Rightarrow> f k @ replace_indexed m f (Suc k) (drop (n - 1) cs))"

definition matches_of :: "(string \<Rightarrow> nat option) \<Rightarrow> string \<Rightarrow> string list" where
  "matches_of m s = map (\<lambda>(a, b). take (b - a) (drop a s)) (ranges_of m s)"

text \<open>\<^verbatim>\<open>/&(?!(amp|lt|gt|quot|apos);)/g\<close> replaced by \<^verbatim>\<open>&amp;\<close>.\<close>

definition amp_match :: "string \<Rightarrow> (nat \<times> string) option" where
  "amp_match s =
     (case s of
        [] \<Rightarrow> None
      | c # r \<Rightarrow>
          if c \<noteq> CHR ''&'' then None
          else if starts_with r ''amp;'' \<or> starts_with r ''lt;'' \<or> starts_with r ''gt;''
                  \<or> starts_with r ''quot;'' \<or> starts_with r ''apos;'' then None
          else Some (1, ''&amp;''))"

definition escape_text :: "string \<Rightarrow> string" where
  "escape_text text =
     concat (map (\<lambda>c. if c = CHR ''>'' then ''&gt;'' else [c])
       (concat (map (\<lambda>c. if c = CHR ''<'' then ''&lt;'' else [c])
          (replace_all amp_match text))))"

text \<open>\<^verbatim>\<open>/>([^<]*)</g\<close> with its callback.\<close>

definition text_content_match :: "string \<Rightarrow> (nat \<times> string) option" where
  "text_content_match s =
     (case s of
        [] \<Rightarrow> None
      | c # r \<Rightarrow>
          if c \<noteq> CHR ''>'' then None
          else
            (let text = takeWhile (\<lambda>c. c \<noteq> CHR ''<'') r
             in if dropWhile (\<lambda>c. c \<noteq> CHR ''<'') r = [] then None
                else Some (1 + length text + 1,
                           if str_includes text ''__CDATA_PLACEHOLDER_''
                           then CHR ''>'' # text @ ''<''
                           else CHR ''>'' # escape_text text @ ''<'')))"

text \<open>
  \<^verbatim>\<open>s.replace(pattern, replacement)\<close> with a string pattern: the first occurrence is
  replaced, and in the replacement \<^verbatim>\<open>$$\<close>, \<^verbatim>\<open>$&\<close>, \<^verbatim>\<open>$`\<close> and
  \<^verbatim>\<open>$'\<close> stand for a dollar sign, the match, the text before it and the text after it.
\<close>

fun get_substitution :: "string \<Rightarrow> string \<Rightarrow> string \<Rightarrow> string \<Rightarrow> string" where
  "get_substitution matched pre post (c # d # r) =
     (if c = CHR ''$'' \<and> d = CHR ''$'' then CHR ''$'' # get_substitution matched pre post r
      else if c = CHR ''$'' \<and> d = CHR ''&'' then matched @ get_substitution matched pre post r
      else if c = CHR ''$'' \<and> d = CHR 0x60 then pre @ get_substitution matched pre post r
      else if c = CHR ''$'' \<and> d = CHR 0x27 then post @ get_substitution matched pre post r
      else c # get_substitution matched pre post (d # r))"
| "get_substitution matched pre post r = r"

definition js_replace_first :: "string \<Rightarrow> string \<Rightarrow> string \<Rightarrow> string" where
  "js_replace_first pat repl s =
     (case index_of s pat of
        None \<Rightarrow> s
      | Some i \<Rightarrow>
          take i s
          @ get_substitution pat (take i s) (drop (i + length pat) s) repl
          @ drop (i + length pat) s)"

definition escapeSpecialChars :: "string \<Rightarrow> string" where
  "escapeSpecialChars xmlString =
     (let cdataSections = matches_of cdata_match xmlString;
          withoutCdata = replace_indexed cdata_match placeholder 0 xmlString;
          escaped = replace_all text_content_match withoutCdata
      in foldl (\<lambda>w ic. js_replace_first (placeholder (fst ic)) (snd ic) w) escaped
           (zip [0..<length cdataSections] cdataSections))"

subsection \<open>\<^verbatim>\<open>_balanceTags\<close>\<close>

type_synonym balance_state = "string list \<times> xml_note list \<times> string"

definition balance_step :: "balance_state \<Rightarrow> tag \<Rightarrow> balance_state" where
  "balance_step st current =
     (case st of (tagStack, fixes, balanced) \<Rightarrow>
        if isClosing current then
          (if tagStack = [] then
             (tagStack, fixes @ [RemovedUnmatchedClosingTag (tname current)],
              js_replace_first (fullTag current) [] balanced)
           else
             (butlast tagStack,
              (if last tagStack \<noteq> tname current
               then fixes @ [FixedMismatchedTags (last tagStack) (tname current)]
               else fixes),
              balanced))
        else if \<not> isSelfClosing current then (tagStack @ [tname current], fixes, balanced)
        else st)"

definition balanceTags :: "string \<Rightarrow> string \<times> xml_note list" where
  "balanceTags xmlString =
     (let cleanXml = strip_cdata (strip_comments (strip_pis xmlString))
      in (case foldl balance_step ([], [], xmlString) (scan_tags cleanXml) of
            (tagStack, fixes, balanced) \<Rightarrow> (balanced, fixes)))"

subsection \<open>\<^verbatim>\<open>fix\<close>\<close>

record xml_result =
  x_success :: bool
  x_fixed :: string
  x_original :: string
  x_fixes :: "xml_note list"
  x_data :: "string option"
  x_errors :: "xml_error list"
  x_method :: "string option"
  x_canTryAI :: bool

type_synonym xml_progress = "string \<times> xml_note list"

definition xml_declaration :: string where
  \<open>xml_declaration = ''<?xml version="1.0" encoding="UTF-8"?>\<newline>''\<close>

definition fix1_declaration :: "xml_progress \<Rightarrow> xml_progress" where
  "fix1_declaration p =
     (case p of (fixed, fixes) \<Rightarrow>
        if \<not> starts_with (trim fixed) ''<?xml''
        then (xml_declaration @ fixed, fixes @ [AddedXMLDeclaration])
        else p)"

definition fix2_mismatched :: "xml_progress \<Rightarrow> xml_progress" where
  "fix2_mismatched p =
     (case p of (fixed, fixes) \<Rightarrow>
        (case fixMismatchedTags fixed of (xml, fs) \<Rightarrow>
           if length fs > 0 then (xml, fixes @ fs) else p))"

definition fix3_unclosed :: "xml_progress \<Rightarrow> xml_progress" where
  "fix3_unclosed p =
     (case p of (fixed, fixes) \<Rightarrow>
        (case fixUnclosedTags fixed of (unclosedTags, fixedXml) \<Rightarrow>
           if length unclosedTags > 0
           then (fixedXml, fixes @ [FixedUnclosedTags (length unclosedTags) unclosedTags])
           else p))"

definition rewrite_step :: "(string \<Rightarrow> string) \<Rightarrow> xml_note \<Rightarrow> xml_progress \<Rightarrow> xml_progress" where
  "rewrite_step f note p =
     (case p of (fixed, fixes) \<Rightarrow>
        (f fixed, if f fixed \<noteq> fixed then fixes @ [note] else fixes))"

definition fix9_balance :: "xml_progress \<Rightarrow> xml_progress" where
  "fix9_balance p =
     (case p of (fixed, fixes) \<Rightarrow>
        (case balanceTags fixed of (xml, fs) \<Rightarrow>
           if length fs > 0 then (xml, fixes @ fs) else p))"

definition xml_rules :: "string \<Rightarrow> xml_progress" where
  "xml_rules xmlString =
     fix9_balance
      (rewrite_step (\<lambda>s. replace_all invalid_close_match (replace_all invalid_open_match s))
         FixedInvalidTagNames
      (rewrite_step (replace_all attr_quote_match) AddedQuotesToAttributes
      (rewrite_step escapeSpecialChars EscapedSpecialCharacters
      (rewrite_step (replace_all missing_equals_match) FixedMissingEquals
      (rewrite_step (replace_all unclosed_quote_match) FixedUnclosedAttributeQuotes
      (fix3_unclosed
      (fix2_mismatched
      (fix1_declaration (xmlString, [])))))))))"

text \<open>\<^verbatim>\<open>fix(xmlString)\<close> with the default options, i.e. without the generative
  fallback.\<close>

definition xml_fix :: "string \<Rightarrow> xml_result" where
  "xml_fix xmlString =
     (let criticalErrors = detectCriticalErrors xmlString
      in if length criticalErrors > 0 then
           \<lparr>x_success = False, x_fixed = xmlString, x_original = xmlString, x_fixes = [],
            x_data = None, x_errors = criticalErrors, x_method = None, x_canTryAI = True\<rparr>
         else
           (case xml_rules xmlString of (fixed', fixes') \<Rightarrow>
              (let parseResult = xml_parse fixed'
               in \<lparr>x_success = p_success parseResult, x_fixed = fixed', x_original = xmlString,
                   x_fixes = fixes', x_data = p_data parseResult, x_errors = p_errors parseResult,
                   x_method = Some ''rules'', x_canTryAI = (\<not> p_success parseResult)\<rparr>)))"

section \<open>The JSON engine\<close>

subsection \<open>The strict decoder\<close>

text \<open>
  \<^verbatim>\<open>parse\<close> calls \<^verbatim>\<open>JSON.parse\<close> of the language and reports whether it threw.
  The decoder is modelled by the JSON grammar of ECMA-404: a lexer for the tokens and a
  pushdown automaton over them.  The value keeps string and number tokens as written
  (escape sequences are checked, not decoded).
\<close>

datatype json =
    JNull
  | JBool bool
  | JNumber string
  | JString string
  | JArray "json list"
  | JObject "(string \<times> json) list"

datatype token =
    TLBrace | TRBrace | TLBracket | TRBracket | TColon | TComma
  | TValue json
  | TStr string

definition bs :: char where
  "bs = CHR 0x5C"

definition is_hex :: "char \<Rightarrow> bool" where
  "is_hex c = (is_digit c \<or> (97 \<le> code c \<and> code c \<le> 102) \<or> (65 \<le> code c \<and> code c \<le> 70))"

definition is_simple_escape :: "char \<Rightarrow> bool" where
  "is_simple_escape c =
     (c = dq \<or> c = bs \<or> c = CHR ''/'' \<or> c = CHR ''b'' \<or> c = CHR ''f''
      \<or> c = CHR ''n'' \<or> c = CHR ''r'' \<or> c = CHR ''t'')"

text \<open>The body of a string token after its opening quote, and the text after its
  closing quote.\<close>

fun lex_string :: "string \<Rightarrow> (string \<times> string) option" where
  "lex_string [] = None"
| "lex_string (c # cs) =
     (if c = dq then Some ([], cs)
      else if c = bs then
        (case cs of
           [] \<Rightarrow> None
         | e # cs' \<Rightarrow>
             if is_simple_escape e then
               (case lex_string cs' of None \<Rightarrow> None | Some (b, r) \<Rightarrow> Some (c # e # b, r))
             else if e = CHR ''u'' \<and> length (takeWhile is_hex (take 4 cs')) = 4 then
               (case lex_string cs' of None \<Rightarrow> None | Some (b, r) \<Rightarrow> Some (c # e # b, r))
             else None)
      else if code c < 32 then None
      else (case lex_string cs of None \<Rightarrow> None | Some (b, r) \<Rightarrow> Some (c # b, r)))"

text \<open>A number token: \<^verbatim>\<open>-? (0 | [1-9][0-9]*) (\.[0-9]+)? ([eE][+-]?[0-9]+)?\<close>.\<close>

definition lex_frac :: "string \<Rightarrow> (string \<times> string) option" where
  "lex_frac s =
     (case s of
        [] \<Rightarrow> Some ([], [])
      | c # r \<Rightarrow>
          if c = CHR ''.'' then
            (if takeWhile is_digit r = [] then None
             else Some (c # takeWhile is_digit r, dropWhile is_digit r))
          else Some ([], s))"

definition lex_exp :: "string \<Rightarrow> (string \<times> string) option" where
  "lex_exp s =
     (case s of
        [] \<Rightarrow> Some ([], [])
      | c # r \<Rightarrow>
          if c = CHR ''e'' \<or> c = CHR ''E'' then
            (let sign = (case r of [] \<Rightarrow> [] | g # _ \<Rightarrow> if g = CHR ''+'' \<or> g = CHR ''-'' then [g] else []);
                 r' = drop (length sign) r
             in if takeWhile is_digit r' = [] then None
                else Some (c # sign @ takeWhile is_digit r', dropWhile is_digit r'))
          else Some ([], s))"

definition lex_int :: "string \<Rightarrow> (string \<times> string) option" where
  "lex_int s =
     (case s of
        [] \<Rightarrow> None
      | c # r \<Rightarrow>
          if c = CHR ''0'' then Some ([c], r)
          else if is_digit c then Some (c # takeWhile is_digit r, dropWhile is_digit r)
          else None)"

definition lex_number :: "string \<Rightarrow> (string \<times> string) option" where
  "lex_number s =
     (let sign = (case s of [] \<Rightarrow> [] | c # _ \<Rightarrow> if c = CHR ''-'' then [c] else [])
      in (case lex_int (drop (length sign) s) of
            None \<Rightarrow> None
          | Some (i, r1) \<Rightarrow>
              (case lex_frac r1 of
                 None \<Rightarrow> None
               | Some (f, r2) \<Rightarrow>
                   (case lex_exp r2 of
                      None \<Rightarrow> None
                    | Some (e, r3) \<Rightarrow> Some (sign @ i @ f @ e, r3)))))"

definition is_json_space :: "char \<Rightarrow> bool" where
  "is_json_space c = (code c \<in> {9, 10, 13, 32})"

text \<open>One token and the text after it.\<close>

definition lex_token :: "string \<Rightarrow> (token \<times> string) option" where
  "lex_token s =
     (case s of
        [] \<Rightarrow> None
      | c # r \<Rightarrow>
          if c = CHR ''{'' then Some (TLBrace, r)
          else if c = CHR ''}'' then Some (TRBrace, r)
          else if c = CHR ''['' then Some (TLBracket, r)
          else if c = CHR '']'' then Some (TRBracket, r)
          else if c = CHR '':'' then Some (TColon, r)
          else if c = CHR '','' then Some (TComma, r)
          else if c = dq then
            (case lex_string r of None \<Rightarrow> None | Some (b, r') \<Rightarrow> Some (TStr b, r'))
          else if starts_with s ''true'' then Some (TValue (JBool True), drop 4 s)
          else if starts_with s ''false'' then Some (TValue (JBool False), drop 5 s)
          else if starts_with s ''null'' then Some (TValue JNull, drop 4 s)
          else (case lex_number s of None \<Rightarrow> None | Some (n, r') \<Rightarrow> Some (TValue (JNumber n), r')))"

text \<open>Every token is at least one character long.\<close>

lemma lex_string_shorter: "lex_string cs = Some (b, r) \<Longrightarrow> length r < Suc (length cs)"
proof (induction cs arbitrary: b r rule: lex_string.induct)
  case 1
  then show ?case by simp
next
  case (2 c cs)
  show ?case
  proof (cases "c = dq")
    case True
    with "2.prems" show ?thesis by simp
  next
    case False
    note ndq = this
    show ?thesis
    proof (cases "c = bs")
      case True
      with ndq "2.prems" obtain e cs' where cs: "cs = e # cs'"
        by (cases cs) auto
      from True ndq "2.prems" cs obtain b' where "lex_string cs' = Some (b', r)"
        by (auto split: if_splits option.splits)
      moreover from this True ndq cs "2.prems" have "is_simple_escape e \<or> (e = CHR ''u'' \<and> length (takeWhile is_hex (take 4 cs')) = 4)"
        by (auto split: if_splits)
      ultimately have "length r < Suc (length cs')"
        using "2.IH"(1)[OF ndq True cs, of b' r] "2.IH"(2)[OF ndq True cs, of b' r] by blast
      with cs show ?thesis by simp
    next
      case False
      with ndq "2.prems" obtain b' where "lex_string cs = Some (b', r)" "\<not> code c < 32"
        by (auto split: if_splits option.splits)
      with "2.IH"(3)[OF ndq False, of b' r] show ?thesis by simp
    qed
  qed
qed

lemma lex_int_shorter: "lex_int s = Some (n, r) \<Longrightarrow> length r < length s"
  by (auto simp: lex_int_def split: list.splits if_splits
        intro: le_less_trans [OF length_dropWhile_le])

lemma lex_frac_shorter: "lex_frac s = Some (n, r) \<Longrightarrow> length r \<le> length s"
  by (auto simp: lex_frac_def split: list.splits if_splits
        intro: le_trans [OF length_dropWhile_le])

lemma lex_exp_shorter: "lex_exp s = Some (n, r) \<Longrightarrow> length r \<le> length s"
proof -
  assume a: "lex_exp s = Some (n, r)"
  show ?thesis
  proof (cases s)
    case Nil
    with a show ?thesis by (simp add: lex_exp_def)
  next
    case (Cons c t)
    show ?thesis
    proof (cases "c = CHR ''e'' \<or> c = CHR ''E''")
      case False
      with a Cons show ?thesis by (simp add: lex_exp_def)
    next
      case True
      with a Cons obtain k where "r = dropWhile is_digit (drop k t)"
        by (auto simp: lex_exp_def Let_def split: if_splits)
      moreover have "length (dropWhile is_digit (drop k t)) \<le> length t"
        using length_dropWhile_le [of is_digit "drop k t"] by simp
      ultimately show ?thesis using Cons by simp
    qed
  qed
qed

lemma lex_number_shorter: "lex_number s = Some (n, r) \<Longrightarrow> length r < length s"
proof -
  assume a: "lex_number s = Some (n, r)"
  then obtain k i r1 f r2 e where
    "lex_int (drop k s) = Some (i, r1)" "lex_frac r1 = Some (f, r2)" "lex_exp r2 = Some (e, r)"
    by (auto simp: lex_number_def Let_def split: option.splits)
  then have "length r1 < length (drop k s)" "length r2 \<le> length r1" "length r \<le> length r2"
    by (auto dest: lex_int_shorter lex_frac_shorter lex_exp_shorter)
  then show ?thesis by simp
qed

lemma lex_token_shorter: "lex_token s = Some (t, r) \<Longrightarrow> length r < length s"
  by (auto simp: lex_token_def starts_with_def split: list.splits if_splits option.splits
        dest: lex_string_shorter lex_number_shorter)

text \<open>The token list of a text: skip white space, read a token, go on after it.\<close>

function lex :: "string \<Rightarrow> token list option" where
  "lex s =
     (case dropWhile is_json_space s of
        [] \<Rightarrow> Some []
      | c # r \<Rightarrow>
          (case lex_token (c # r) of
             None \<Rightarrow> None
           | Some (t, rest) \<Rightarrow>
               (case lex rest of None \<Rightarrow> None | Some ts \<Rightarrow> Some (t # ts))))"
  by pat_completeness auto
termination
proof (relation "measure length")
  fix s :: string and c r x2 t rest
  assume "dropWhile is_json_space s = c # r" and "lex_token (c # r) = Some x2" and "(t, rest) = x2"
  then have "length rest < length (dropWhile is_json_space s)"
    using lex_token_shorter [of "c # r" t rest] by simp
  then show "(rest, s) \<in> measure length"
    using length_dropWhile_le [of is_json_space s] by simp
qed simp

declare lex.simps [simp del]

text \<open>
  The automaton.  A frame is an open array with its elements so far (last first), or an
  open object with its members so far and, after a key, that key.
\<close>

datatype frame =
    FArray "json list"
  | FObject "(string \<times> json) list" "string option"

datatype expect =
    ExpectValue bool
  | ExpectKey bool
  | ExpectColon
  | AfterValue
  | Done json

text \<open>\<open>ExpectValue True\<close> and \<open>ExpectKey True\<close> are the states right after an opening
  bracket or brace, where the container may close at once.\<close>

definition push_value :: "json \<Rightarrow> frame list \<Rightarrow> (expect \<times> frame list) option" where
  "push_value v stack =
     (case stack of
        [] \<Rightarrow> Some (Done v, [])
      | FArray vs # st \<Rightarrow> Some (AfterValue, FArray (v # vs) # st)
      | FObject kvs (Some k) # st \<Rightarrow> Some (AfterValue, FObject ((k, v) # kvs) None # st)
      | FObject kvs None # st \<Rightarrow> None)"

definition pda_step :: "expect \<times> frame list \<Rightarrow> token \<Rightarrow> (expect \<times> frame list) option" where
  "pda_step st t =
     (case st of (e, stack) \<Rightarrow>
        (case e of
           ExpectValue may_close \<Rightarrow>
             (case t of
                TValue v \<Rightarrow> push_value v stack
              | TStr b \<Rightarrow> push_value (JString b) stack
              | TLBracket \<Rightarrow> Some (ExpectValue True, FArray [] # stack)
              | TLBrace \<Rightarrow> Some (ExpectKey True, FObject [] None # stack)
              | TRBracket \<Rightarrow>
                  (case stack of
                     FArray vs # st' \<Rightarrow> if may_close then push_value (JArray (rev vs)) st' else None
                   | _ \<Rightarrow> None)
              | _ \<Rightarrow> None)
         | ExpectKey may_close \<Rightarrow>
             (case t of
                TStr b \<Rightarrow>
                  (case stack of
                     FObject kvs None # st' \<Rightarrow> Some (ExpectColon, FObject kvs (Some b) # st')
                   | _ \<Rightarrow> None)
              | TRBrace \<Rightarrow>
                  (case stack of
                     FObject kvs None # st' \<Rightarrow>
                       if may_close then push_value (JObject (rev kvs)) st' else None
                   | _ \<Rightarrow> None)
              | _ \<Rightarrow> None)
         | ExpectColon \<Rightarrow> (case t of TColon \<Rightarrow> Some (ExpectValue False, stack) | _ \<Rightarrow> None)
         | AfterValue \<Rightarrow>
             (case stack of
                FArray vs # st' \<Rightarrow>
                  (case t of
                     TComma \<Rightarrow> Some (ExpectValue False, stack)
                   | TRBracket \<Rightarrow> push_value (JArray (rev vs)) st'
                   | _ \<Rightarrow> None)
              | FObject kvs None # st' \<Rightarrow>
                  (case t of
                     TComma \<Rightarrow> Some (ExpectKey False, stack)
                   | TRBrace \<Rightarrow> push_value (JObject (rev kvs)) st'
                   | _ \<Rightarrow> None)
              | _ \<Rightarrow> None)
         | Done v \<Rightarrow> None))"

fun pda_run :: "expect \<times> frame list \<Rightarrow> token list \<Rightarrow> (expect \<times> frame list) option" where
  "pda_run st [] = Some st"
| "pda_run st (t # ts) = (case pda_step st t of None \<Rightarrow> None | Some st' \<Rightarrow> pda_run st' ts)"

text \<open>\<^verbatim>\<open>JSON.parse(text)\<close>: the value, or \<open>None\<close> where it throws.\<close>

definition json_decode :: "string \<Rightarrow> json option" where
  "json_decode text =
     (case lex text of
        None \<Rightarrow> None
      | Some ts \<Rightarrow>
          (case pda_run (ExpectValue False, []) ts of
             Some (Done v, []) \<Rightarrow> Some v
           | _ \<Rightarrow> None))"

datatype json_error = JsonParseError

record json_parse_result =
  jp_success :: bool
  jp_data :: "json option"
  jp_errors :: "json_error list"

definition json_parse :: "string \<Rightarrow> json_parse_result" where
  "json_parse jsonString =
     (case json_decode jsonString of
        Some v \<Rightarrow> \<lparr>jp_success = True, jp_data = Some v, jp_errors = []\<rparr>
      | None \<Rightarrow> \<lparr>jp_success = False, jp_data = None, jp_errors = [JsonParseError]\<rparr>)"

subsection \<open>The scanners of the JSON engine\<close>

text \<open>\<^verbatim>\<open>_fixUnclosedStrings\<close>: one pass with the index \<open>i\<close>; \<open>stringStart\<close> is -1
  outside a string.\<close>

record unclosed_scan =
  us_result :: string
  us_inString :: bool
  us_escapeNext :: bool
  us_stringStart :: int

definition unclosed_string_step :: "unclosed_scan \<Rightarrow> nat \<times> char \<Rightarrow> unclosed_scan" where
  "unclosed_string_step st ic =
     (case ic of (i, c) \<Rightarrow>
        if us_escapeNext st then
          st\<lparr>us_result := us_result st @ [c], us_escapeNext := False\<rparr>
        else if c = bs \<and> us_inString st then
          st\<lparr>us_escapeNext := True, us_result := us_result st @ [c]\<rparr>
        else if c = dq then
          (if \<not> us_inString st then
             st\<lparr>us_inString := True, us_stringStart := int i, us_result := us_result st @ [c]\<rparr>
           else
             st\<lparr>us_inString := False, us_stringStart := -1, us_result := us_result st @ [c]\<rparr>)
        else if us_inString st \<and> (c = CHR 0x0A \<or> c = CHR 0x0D) then
          st\<lparr>us_result := us_result st @ [dq, c], us_inString := False, us_stringStart := -1\<rparr>
        else if us_inString st \<and> (c = CHR '','' \<or> c = CHR ''}'' \<or> c = CHR '']'')
                \<and> (int i - us_stringStart st > 200 \<or> c = CHR 0x0A) then
          st\<lparr>us_result := us_result st @ [dq, c], us_inString := False, us_stringStart := -1\<rparr>
        else st\<lparr>us_result := us_result st @ [c]\<rparr>)"

definition fixUnclosedStrings :: "string \<Rightarrow> string" where
  "fixUnclosedStrings jsonString =
     (let st = foldl unclosed_string_step
                 \<lparr>us_result = [], us_inString = False, us_escapeNext = False, us_stringStart = -1\<rparr>
                 (zip [0..<length jsonString] jsonString)
      in if us_inString st then us_result st @ [dq] else us_result st)"

text \<open>
  \<^verbatim>\<open>_removeComments\<close>.  The index jumps over a comment: a line comment runs to the
  next line feed (not consumed); a block comment runs to the first \<^verbatim>\<open>*/\<close> found
  while \<^verbatim>\<open>i < length - 1\<close>, so a block comment that is not closed leaves the last
  character of the text to the outer loop.
\<close>

fun skip_block :: "string \<Rightarrow> string" where
  "skip_block (c # d # r) = (if c = CHR ''*'' \<and> d = CHR ''/'' then r else skip_block (d # r))"
| "skip_block r = r"

definition skip_line :: "string \<Rightarrow> string" where
  "skip_line r = dropWhile (\<lambda>c. c \<noteq> CHR 0x0A) r"

lemma skip_block_length: "length (skip_block r) \<le> length r"
  by (induction r rule: skip_block.induct) auto

lemma skip_line_length: "length (skip_line r) \<le> length r"
  by (simp add: skip_line_def length_dropWhile_le)

function remove_comments_from :: "bool \<Rightarrow> bool \<Rightarrow> string \<Rightarrow> string" where
  "remove_comments_from inString escapeNext [] = []"
| "remove_comments_from inString escapeNext (c # cs) =
     (if escapeNext then c # remove_comments_from inString False cs
      else if c = bs \<and> inString then c # remove_comments_from inString True cs
      else if c = dq then c # remove_comments_from (\<not> inString) escapeNext cs
      else if inString then c # remove_comments_from inString escapeNext cs
      else if c = CHR ''/'' \<and> (case cs of [] \<Rightarrow> False | d # _ \<Rightarrow> d = CHR ''/'') then
        remove_comments_from inString escapeNext (skip_line (tl cs))
      else if c = CHR ''/'' \<and> (case cs of [] \<Rightarrow> False | d # _ \<Rightarrow> d = CHR ''*'') then
        remove_comments_from inString escapeNext (skip_block (tl cs))
      else c # remove_comments_from inString escapeNext cs)"
  by pat_completeness auto
termination
proof (relation "measure (\<lambda>(i, e, s). length s)")
  fix inString escapeNext :: bool and c :: char and cs :: string
  have "length (skip_line (tl cs)) \<le> length cs"
    using skip_line_length [of "tl cs"] by (cases cs) auto
  then show "((inString, escapeNext, skip_line (tl cs)), inString, escapeNext, c # cs)
      \<in> measure (\<lambda>(i, e, s). length s)"
    by simp
  have "length (skip_block (tl cs)) \<le> length cs"
    using skip_block_length [of "tl cs"] by (cases cs) auto
  then show "((inString, escapeNext, skip_block (tl cs)), inString, escapeNext, c # cs)
      \<in> measure (\<lambda>(i, e, s). length s)"
    by simp
qed auto

definition removeComments :: "string \<Rightarrow> string" where
  "removeComments jsonString = remove_comments_from False False jsonString"

text \<open>\<^verbatim>\<open>_addMissingCommas\<close>; \<open>lastToken\<close> is \<open>None\<close> for the empty string it starts
  with.\<close>

record comma_scan =
  cs_result :: string
  cs_inString :: bool
  cs_escapeNext :: bool
  cs_pendingWhitespace :: string
  cs_lastToken :: "char option"

definition needs_comma :: "char option \<Rightarrow> bool" where
  "needs_comma lastToken =
     (lastToken = Some (CHR ''}'') \<or> lastToken = Some (CHR '']'') \<or> lastToken = Some dq)"

definition comma_step :: "comma_scan \<Rightarrow> char \<Rightarrow> comma_scan" where
  "comma_step st c =
     (if cs_escapeNext st then
        st\<lparr>cs_result := cs_result st @ [c], cs_escapeNext := False\<rparr>
      else if c = bs \<and> cs_inString st then
        st\<lparr>cs_escapeNext := True, cs_result := cs_result st @ [c]\<rparr>
      else if c = dq then
        (if \<not> cs_inString st then
           st\<lparr>cs_result := cs_result st
                  @ (if needs_comma (cs_lastToken st) then '','' else [])
                  @ cs_pendingWhitespace st @ [c],
              cs_pendingWhitespace := [], cs_inString := True\<rparr>
         else
           st\<lparr>cs_inString := False, cs_result := cs_result st @ [c], cs_lastToken := Some dq\<rparr>)
      else if cs_inString st then
        st\<lparr>cs_result := cs_result st @ [c]\<rparr>
      else if is_space c then
        st\<lparr>cs_pendingWhitespace := cs_pendingWhitespace st @ [c]\<rparr>
      else if c = CHR ''{'' \<or> c = CHR ''['' then
        st\<lparr>cs_result := cs_result st
               @ (if needs_comma (cs_lastToken st) then '','' else [])
               @ cs_pendingWhitespace st @ [c],
           cs_pendingWhitespace := [], cs_lastToken := Some c\<rparr>
      else if c = CHR ''}'' \<or> c = CHR '']'' then
        st\<lparr>cs_result := cs_result st @ cs_pendingWhitespace st @ [c],
           cs_pendingWhitespace := [], cs_lastToken := Some c\<rparr>
      else if c = CHR '':'' \<or> c = CHR '','' then
        st\<lparr>cs_result := cs_result st @ cs_pendingWhitespace st @ [c],
           cs_pendingWhitespace := [], cs_lastToken := Some c\<rparr>
      else
        st\<lparr>cs_result := cs_result st @ cs_pendingWhitespace st @ [c],
           cs_pendingWhitespace := []\<rparr>)"

definition addMissingCommas :: "string \<Rightarrow> string" where
  "addMissingCommas jsonString =
     (let st = foldl comma_step
                 \<lparr>cs_result = [], cs_inString = False, cs_escapeNext = False,
                  cs_pendingWhitespace = [], cs_lastToken = None\<rparr> jsonString
      in cs_result st @ cs_pendingWhitespace st)"

subsection \<open>The regular-expression rewrites of the JSON engine\<close>

text \<open>Fix 1, \<^verbatim>\<open>/'([^']*)'/g\<close> replaced by \<^verbatim>\<open>"$1"\<close>.\<close>

definition single_quote_match :: "string \<Rightarrow> (nat \<times> string) option" where
  "single_quote_match s =
     (case s of
        [] \<Rightarrow> None
      | c # r \<Rightarrow>
          if c \<noteq> CHR 0x27 then None
          else if dropWhile (\<lambda>c. c \<noteq> CHR 0x27) r = [] then None
          else (let content = takeWhile (\<lambda>c. c \<noteq> CHR 0x27) r
                in Some (1 + length content + 1, dq # content @ [dq])))"

text \<open>Fix 4, \<^verbatim>\<open>/,(\s*[}\]])/g\<close> replaced by \<^verbatim>\<open>$1\<close>.\<close>

definition trailing_comma_match :: "string \<Rightarrow> (nat \<times> string) option" where
  "trailing_comma_match s =
     (case s of
        [] \<Rightarrow> None
      | c # r \<Rightarrow>
          if c \<noteq> CHR '','' then None
          else
            (case dropWhile is_space r of
               [] \<Rightarrow> None
             | d # _ \<Rightarrow>
                 if d = CHR ''}'' \<or> d = CHR '']''
                 then Some (1 + length (takeWhile is_space r) + 1, takeWhile is_space r @ [d])
                 else None))"

text \<open>Fix 5, \<^verbatim>\<open>/([{,]\s*)([a-zA-Z_$][a-zA-Z0-9_$]*)(\s*:)/g\<close> replaced by
  \<^verbatim>\<open>$1"$2"$3\<close>.\<close>

definition is_ident_start :: "char \<Rightarrow> bool" where
  "is_ident_start c = (is_alpha c \<or> c = CHR ''_'' \<or> c = CHR ''$'')"

definition is_ident_char :: "char \<Rightarrow> bool" where
  "is_ident_char c = (is_alnum c \<or> c = CHR ''_'' \<or> c = CHR ''$'')"

definition unquoted_key_match :: "string \<Rightarrow> (nat \<times> string) option" where
  "unquoted_key_match s =
     (case s of
        [] \<Rightarrow> None
      | c # r \<Rightarrow>
          if c \<noteq> CHR ''{'' \<and> c \<noteq> CHR '','' then None
          else
            (let ws1 = takeWhile is_space r
             in (case dropWhile is_space r of
                   [] \<Rightarrow> None
                 | k # r2 \<Rightarrow>
                     if \<not> is_ident_start k then None
                     else
                       (let ident = k # takeWhile is_ident_char r2;
                            r3 = dropWhile is_ident_char r2;
                            ws2 = takeWhile is_space r3
                        in (case dropWhile is_space r3 of
                              [] \<Rightarrow> None
                            | e # _ \<Rightarrow>
                                if e = CHR '':''
                                then Some (1 + length ws1 + length ident + length ws2 + 1,
                                           c # ws1 @ dq # ident @ dq # ws2 @ '':'')
                                else None)))))"

text \<open>Fix 8, \<^verbatim>\<open>/^"[^"]+"\s*:\s*.+}$/s\<close> on the trimmed text.  With the \<^verbatim>\<open>s\<close>
  flag the dot matches every character, so what follows the colon only has to end in
  \<^verbatim>\<open>}\<close> after at least one character.\<close>

definition looks_like_missing_brace :: "string \<Rightarrow> bool" where
  "looks_like_missing_brace trimmed =
     (case trimmed of
        [] \<Rightarrow> False
      | q # r \<Rightarrow>
          q = dq \<and> takeWhile (\<lambda>c. c \<noteq> dq) r \<noteq> [] \<and>
          (case dropWhile (\<lambda>c. c \<noteq> dq) r of
             [] \<Rightarrow> False
           | q' # r1 \<Rightarrow>
               (case dropWhile is_space r1 of
                  [] \<Rightarrow> False
                | e # r2 \<Rightarrow> e = CHR '':'' \<and> length r2 \<ge> 2 \<and> last r2 = CHR ''}'')))"

text \<open>Fix 9, \<^verbatim>\<open>/:\s*0([0-9]+)/g\<close> replaced by \<^verbatim>\<open>: $1\<close>.\<close>

definition leading_zero_match :: "string \<Rightarrow> (nat \<times> string) option" where
  "leading_zero_match s =
     (case s of
        [] \<Rightarrow> None
      | c # r \<Rightarrow>
          if c \<noteq> CHR '':'' then None
          else
            (case dropWhile is_space r of
               [] \<Rightarrow> None
             | z # r2 \<Rightarrow>
                 if z = CHR ''0'' \<and> takeWhile is_digit r2 \<noteq> []
                 then Some (1 + length (takeWhile is_space r) + 1 + length (takeWhile is_digit r2),
                            '': '' @ takeWhile is_digit r2)
                 else None))"

text \<open>
  Fix 10, \<^verbatim>\<open>/"([^"]*\\(?!["\\/bfnrtu]))/g\<close> with its callback.  The group ends at the
  last backslash of the run of characters other than the double quote whose next
  character is not one of \<^verbatim>\<open>" \ / b f n r t u\<close> (the end of the text is allowed);
  the callback doubles every backslash of the group.
\<close>

definition is_escape_letter :: "char \<Rightarrow> bool" where
  "is_escape_letter c = (is_simple_escape c \<or> c = CHR ''u'')"

definition double_backslashes :: "string \<Rightarrow> string" where
  "double_backslashes content = concat (map (\<lambda>c. if c = bs then [bs, bs] else [c]) content)"

definition backslash_match :: "string \<Rightarrow> (nat \<times> string) option" where
  "backslash_match s =
     (case s of
        [] \<Rightarrow> None
      | q # r \<Rightarrow>
          if q \<noteq> dq then None
          else try_down
                 (\<lambda>k. if k = 0 then None
                      else if r ! (k - 1) = bs
                              \<and> (case drop k r of [] \<Rightarrow> True | d # _ \<Rightarrow> \<not> is_escape_letter d)
                      then Some (1 + k, dq # double_backslashes (take k r))
                      else None)
                 (length (takeWhile (\<lambda>c. c \<noteq> dq) r)))"

text \<open>Fix 11, \<^verbatim>\<open>/:\s*NaN/g\<close> and its two siblings, replaced by \<^verbatim>\<open>: null\<close>.\<close>

definition literal_match :: "string \<Rightarrow> string \<Rightarrow> (nat \<times> string) option" where
  "literal_match word s =
     (case s of
        [] \<Rightarrow> None
      | c # r \<Rightarrow>
          if c = CHR '':'' \<and> starts_with (dropWhile is_space r) word
          then Some (1 + length (takeWhile is_space r) + length word, '': null'')
          else None)"

subsection \<open>\<^verbatim>\<open>fix\<close> of the JSON engine\<close>

datatype json_note =
    ConvertedSingleQuotes
  | FixedUnclosedStrings
  | RemovedComments
  | RemovedTrailingCommas
  | QuotedUnquotedKeys
  | AddedMissingCommas
  | AddedClosingBraces nat
  | AddedClosingBrackets nat
  | AddedOpeningBrace
  | FixedLeadingZeros
  | FixedBackslashes

type_synonym json_progress = "string \<times> json_note list"

definition json_rewrite :: "(string \<Rightarrow> string) \<Rightarrow> json_note \<Rightarrow> json_progress \<Rightarrow> json_progress" where
  "json_rewrite f note p =
     (case p of (cur, notes) \<Rightarrow> (f cur, if f cur \<noteq> cur then notes @ [note] else notes))"

definition fix4_trailing_commas :: "json_progress \<Rightarrow> json_progress" where
  "fix4_trailing_commas p =
     (case p of (cur, notes) \<Rightarrow>
        if test_any (\<lambda>s. trailing_comma_match s \<noteq> None) cur
        then (replace_all trailing_comma_match cur, notes @ [RemovedTrailingCommas])
        else p)"

definition count_char :: "char \<Rightarrow> string \<Rightarrow> nat" where
  "count_char c s = length (filter (\<lambda>d. d = c) s)"

definition fix7_braces :: "json_progress \<Rightarrow> json_progress" where
  "fix7_braces p =
     (case p of (cur, notes) \<Rightarrow>
        (let openBraces = count_char (CHR ''{'') cur;
             closeBraces = count_char (CHR ''}'') cur;
             openBrackets = count_char (CHR ''['') cur;
             closeBrackets = count_char (CHR '']'') cur;
             p1 = (if openBraces > closeBraces
                   then (cur @ replicate (openBraces - closeBraces) (CHR ''}''),
                         notes @ [AddedClosingBraces (openBraces - closeBraces)])
                   else p)
         in if openBrackets > closeBrackets
            then (fst p1 @ replicate (openBrackets - closeBrackets) (CHR '']''),
                  snd p1 @ [AddedClosingBrackets (openBrackets - closeBrackets)])
            else p1))"

definition fix8_opening_brace :: "json_progress \<Rightarrow> json_progress" where
  "fix8_opening_brace p =
     (case p of (cur, notes) \<Rightarrow>
        if looks_like_missing_brace (trim cur)
        then (CHR ''{'' # cur, notes @ [AddedOpeningBrace])
        else p)"

definition fix11_literals :: "json_progress \<Rightarrow> json_progress" where
  "fix11_literals p =
     (case p of (cur, notes) \<Rightarrow>
        (replace_all (literal_match ''undefined'')
           (replace_all (literal_match ''Infinity'')
              (replace_all (literal_match ''NaN'') cur)), notes))"

definition json_rules :: "string \<Rightarrow> json_progress" where
  "json_rules jsonString =
     fix11_literals
      (json_rewrite (replace_all backslash_match) FixedBackslashes
      (json_rewrite (replace_all leading_zero_match) FixedLeadingZeros
      (fix8_opening_brace
      (fix7_braces
      (json_rewrite addMissingCommas AddedMissingCommas
      (json_rewrite (replace_all unquoted_key_match) QuotedUnquotedKeys
      (fix4_trailing_commas
      (json_rewrite removeComments RemovedComments
      (json_rewrite fixUnclosedStrings FixedUnclosedStrings
      (json_rewrite (replace_all single_quote_match) ConvertedSingleQuotes
         (jsonString, [])))))))))))"

record json_result =
  j_success :: bool
  j_fixed :: string
  j_original :: string
  j_fixes :: "json_note list"
  j_data :: "json option"
  j_errors :: "json_error list"

definition json_fix :: "string \<Rightarrow> json_result" where
  "json_fix jsonString =
     (case json_rules jsonString of (fixed', fixes') \<Rightarrow>
        (let parseResult = json_parse fixed'
         in \<lparr>j_success = jp_success parseResult, j_fixed = fixed', j_original = jsonString,
             j_fixes = fixes', j_data = jp_data parseResult, j_errors = jp_errors parseResult\<rparr>))"

section \<open>Inputs of the scenarios\<close>

text \<open>The concrete texts on which the engines are evaluated below.\<close>

definition scenario_E :: string where
  "scenario_E = ''<item>1</item><item>2</item>''"

definition two_selfclosing_roots :: string where
  "two_selfclosing_roots = ''<a/><b/>''"

definition second_root_selfclosing :: string where
  "second_root_selfclosing = ''<a>1</a><b/>''"

definition text_before_digit_tag :: string where
  "text_before_digit_tag = ''hello<1a>x</1a>''"

definition noisy_fixed_point :: string where
  "noisy_fixed_point = xml_declaration @ ''<aa><bb><!--</bb><--></aa><!--<bb><--></bb>''"

definition nan_value :: string where
  \<open>nan_value = ''{"a": NaN}''\<close>

definition plain_array :: string where
  "plain_array = ''[1]''"

definition doctype_doc :: string where
  "doctype_doc = ''<!DOCTYPE a><a/>''"

definition nested_unclosed :: string where
  "nested_unclosed = ''<root><item><name>v</item></root>''"

definition scenario_B :: string where
  "scenario_B = ''<root><item>v</root>''"

definition cdata_test_input :: string where
  "cdata_test_input = ''<root><![CDATA[<data>]]></root>''"

definition cdata_closing :: string where
  "cdata_closing = ''<a><![CDATA[</b>]]></a></b>''"

definition last_b_tag :: tag where
  "last_b_tag = \<lparr>tname = ''b'', fullTag = ''</b>'', tpos = 23, isClosing = True, isSelfClosing = False\<rparr>"

definition scenario_C :: string where
  "scenario_C = ''<product>v</product1>''"

definition double_comma :: string where
  "double_comma = ''[1,,]''"

definition two_unquoted :: string where
  "two_unquoted = ''<a b=c d=e>x</a>''"

definition declared_doc :: string where
  \<open>declared_doc = ''<?xml version="1.0"?><a>x</a>''\<close>

definition quoted_word :: string where
  \<open>quoted_word = ''["a\'b\'c"]''\<close>

definition comma_in_string :: string where
  \<open>comma_in_string = ''["a,]"]''\<close>

definition zero_in_string :: string where
  \<open>zero_in_string = ''{"t": "a: 01"}''\<close>

definition url_between_apostrophes :: string where
  \<open>url_between_apostrophes = ''["a\'b", "https://example.com", "c\'d"]''\<close>

section \<open>Evaluations shared by the claims\<close>

lemma scenario_E_critical:
  "detectCriticalErrors scenario_E = [MultipleRoots [''item'', ''item'']]"
  by code_simp

lemma scenario_E_reparses: "p_success (xml_parse scenario_E)"
  by code_simp

lemma doctype_doc_critical: "detectCriticalErrors doctype_doc = [TextBeforeRoot]"
  by code_simp

lemma doctype_doc_reparses: "p_success (xml_parse doctype_doc)"
  by code_simp

lemma xml_fix_rejected:
  assumes "detectCriticalErrors x \<noteq> []"
  shows "xml_fix x =
    \<lparr>x_success = False, x_fixed = x, x_original = x, x_fixes = [], x_data = None,
     x_errors = detectCriticalErrors x, x_method = None, x_canTryAI = True\<rparr>"
  using assms by (simp add: xml_fix_def Let_def)

lemma xml_fix_accepted:
  assumes "detectCriticalErrors x = []"
  shows "x_success (xml_fix x) = p_success (xml_parse (x_fixed (xml_fix x)))"
  using assms by (simp add: xml_fix_def Let_def split: prod.split)

lemma json_fix_success:
  "j_success (json_fix t) = jp_success (json_parse (j_fixed (json_fix t)))"
  by (simp add: json_fix_def Let_def split: prod.split)

section \<open>C1: success and re-parsing\<close>

text \<open>
  C1, as stated: for every input, on either engine, \<open>success\<close> of the result of
  \<^verbatim>\<open>fix\<close> is true if and only if \<open>fixedText\<close> re-parses cleanly under the strict parse
  of that engine.  On the critical-error path of the XML engine this fails: the two-root
  text of Scenario E is rejected with \<open>success = false\<close> and returned unchanged, and the
  engine's own parse accepts it; so it is with \<^verbatim>\<open><!DOCTYPE a><a/>\<close>, rejected for
  text before the root.
\<close>

theorem C1_counterexample:
  "\<not> (x_success (xml_fix ''<item>1</item><item>2</item>'')
        \<longleftrightarrow> p_success (xml_parse (x_fixed (xml_fix ''<item>1</item><item>2</item>''))))
   \<and> \<not> (x_success (xml_fix ''<!DOCTYPE a><a/>'')
        \<longleftrightarrow> p_success (xml_parse (x_fixed (xml_fix ''<!DOCTYPE a><a/>''))))"
proof -
  have "detectCriticalErrors scenario_E \<noteq> []" "detectCriticalErrors doctype_doc \<noteq> []"
    by (simp_all add: scenario_E_critical doctype_doc_critical)
  then have "\<not> x_success (xml_fix scenario_E)" "x_fixed (xml_fix scenario_E) = scenario_E"
    "\<not> x_success (xml_fix doctype_doc)" "x_fixed (xml_fix doctype_doc) = doctype_doc"
    by (simp_all add: xml_fix_rejected)
  then show ?thesis
    using scenario_E_reparses doctype_doc_reparses
    by (simp add: scenario_E_def doctype_doc_def)
qed

text \<open>
  C1, amended: the JSON engine's \<open>success\<close> is the outcome of re-parsing \<open>fixedText\<close>; so
  is the XML engine's when the pre-flight check finds no critical error; when it finds
  one, \<open>success\<close> is false and \<open>fixedText\<close> is the input, whether or not the input
  re-parses.
\<close>

theorem C1_success_iff_reparse:
  "(j_success (json_fix t) \<longleftrightarrow> jp_success (json_parse (j_fixed (json_fix t))))
   \<and> (detectCriticalErrors x = [] \<longrightarrow>
        (x_success (xml_fix x) \<longleftrightarrow> p_success (xml_parse (x_fixed (xml_fix x)))))
   \<and> (detectCriticalErrors y \<noteq> [] \<longrightarrow> \<not> x_success (xml_fix y) \<and> x_fixed (xml_fix y) = y)"
  by (simp add: json_fix_success xml_fix_accepted xml_fix_rejected)

lemma plain_root_not_critical: "detectCriticalErrors ''<root>v</root>'' = []"
  by code_simp

theorem C1_success_iff_reparse_witness:
  "detectCriticalErrors ''<root>v</root>'' = []
   \<and> (x_success (xml_fix ''<root>v</root>'')
        \<longleftrightarrow> p_success (xml_parse (x_fixed (xml_fix ''<root>v</root>''))))
   \<and> detectCriticalErrors scenario_E \<noteq> []
   \<and> \<not> x_success (xml_fix scenario_E) \<and> x_fixed (xml_fix scenario_E) = scenario_E"
proof -
  have a: "detectCriticalErrors ''<root>v</root>'' = []"
    by (rule plain_root_not_critical)
  have b: "detectCriticalErrors scenario_E \<noteq> []"
    by (simp add: scenario_E_critical)
  show ?thesis
    using a b C1_success_iff_reparse [of "''[]''" "''<root>v</root>''" scenario_E] by blast
qed

section \<open>C2: pre-flight rejection\<close>

lemma two_selfclosing_roots_spec:
  "spec_top_level_elements two_selfclosing_roots = [''a'', ''b'']"
  by code_simp

lemma two_selfclosing_roots_checks: "detectCriticalErrors two_selfclosing_roots = []"
  by code_simp

lemma two_selfclosing_roots_fix:
  "xml_fix two_selfclosing_roots =
     \<lparr>x_success = True, x_fixed = xml_declaration @ ''<a/><b/>'',
      x_original = two_selfclosing_roots, x_fixes = [AddedXMLDeclaration],
      x_data = Some (xml_declaration @ ''<a/><b/>''), x_errors = [],
      x_method = Some ''rules'', x_canTryAI = False\<rparr>"
  by code_simp

lemma second_root_selfclosing_spec:
  "spec_top_level_elements second_root_selfclosing = [''a'', ''b'']"
  by code_simp

lemma second_root_selfclosing_checks: "detectCriticalErrors second_root_selfclosing = []"
  by code_simp

lemma second_root_selfclosing_fix:
  "xml_fix second_root_selfclosing =
     \<lparr>x_success = True, x_fixed = xml_declaration @ ''<a>1</a><b/>'',
      x_original = second_root_selfclosing, x_fixes = [AddedXMLDeclaration],
      x_data = Some (xml_declaration @ ''<a>1</a><b/>''), x_errors = [],
      x_method = Some ''rules'', x_canTryAI = False\<rparr>"
  by code_simp

lemma text_before_digit_tag_spec: "spec_text_before_first_tag text_before_digit_tag"
  by code_simp

lemma text_before_digit_tag_checks: "detectCriticalErrors text_before_digit_tag = []"
  by code_simp

lemma text_before_digit_tag_fix:
  "xml_fix text_before_digit_tag =
     \<lparr>x_success = True, x_fixed = xml_declaration @ ''hello<tag1a>x</tag1a>'',
      x_original = text_before_digit_tag,
      x_fixes = [AddedXMLDeclaration, FixedInvalidTagNames],
      x_data = Some (xml_declaration @ ''hello<tag1a>x</tag1a>''), x_errors = [],
      x_method = Some ''rules'', x_canTryAI = False\<rparr>"
  by code_simp

lemma scenario_E_spec: "spec_top_level_elements scenario_E = [''item'', ''item'']"
  by code_simp

text \<open>
  C2 says that every input with one of the four conditions it names is rejected by
  \<^verbatim>\<open>fix\<close>: \<open>success = false\<close>, \<open>canTryAI = true\<close>, no fixes, the text unchanged.
  Where a check of \<^verbatim>\<open>_detectCriticalErrors\<close> fires that is what \<^verbatim>\<open>fix\<close> returns,
  as on Scenario E.  But check 3 (``Check for multiple root elements'') records a root
  only for an opening tag that is not self-closing, and check 2 (``Check for text before
  root element'') looks for the first \<^verbatim>\<open><\<close> followed by a letter, while check 4 and
  fix 8 know of tags that start with a digit.  So \<^verbatim>\<open><a/><b/>\<close> and
  \<^verbatim>\<open><a>1</a><b/>\<close>, with two elements at depth 0, and \<^verbatim>\<open>hello<1a>x</1a>\<close>,
  with text before its first tag, pass the pre-flight check, and \<^verbatim>\<open>fix\<close> returns
  \<open>success = true\<close> and \<open>canTryAI = false\<close> with both roots, and with the text before the
  root, still in place.
\<close>

theorem C2_pre_flight_misses_named_conditions:
  "spec_top_level_elements ''<a/><b/>'' = [''a'', ''b'']
   \<and> detectCriticalErrors ''<a/><b/>'' = []
   \<and> x_success (xml_fix ''<a/><b/>'') \<and> \<not> x_canTryAI (xml_fix ''<a/><b/>'')
   \<and> x_fixed (xml_fix ''<a/><b/>'') = xml_declaration @ ''<a/><b/>''
   \<and> x_fixes (xml_fix ''<a/><b/>'') = [AddedXMLDeclaration]
   \<and> spec_top_level_elements ''<a>1</a><b/>'' = [''a'', ''b'']
   \<and> detectCriticalErrors ''<a>1</a><b/>'' = []
   \<and> x_success (xml_fix ''<a>1</a><b/>'') \<and> \<not> x_canTryAI (xml_fix ''<a>1</a><b/>'')
   \<and> x_fixed (xml_fix ''<a>1</a><b/>'') = xml_declaration @ ''<a>1</a><b/>''
   \<and> spec_text_before_first_tag ''hello<1a>x</1a>''
   \<and> detectCriticalErrors ''hello<1a>x</1a>'' = []
   \<and> x_success (xml_fix ''hello<1a>x</1a>'') \<and> \<not> x_canTryAI (xml_fix ''hello<1a>x</1a>'')
   \<and> x_fixed (xml_fix ''hello<1a>x</1a>'') = xml_declaration @ ''hello<tag1a>x</tag1a>''
   \<and> spec_top_level_elements ''<item>1</item><item>2</item>'' = [''item'', ''item'']
   \<and> detectCriticalErrors ''<item>1</item><item>2</item>'' = [MultipleRoots [''item'', ''item'']]
   \<and> \<not> x_success (xml_fix ''<item>1</item><item>2</item>'')
   \<and> x_canTryAI (xml_fix ''<item>1</item><item>2</item>'')
   \<and> x_fixes (xml_fix ''<item>1</item><item>2</item>'') = []
   \<and> x_fixed (xml_fix ''<item>1</item><item>2</item>'') = ''<item>1</item><item>2</item>''"
proof -
  have "detectCriticalErrors scenario_E \<noteq> []"
    by (simp add: scenario_E_critical)
  then have "xml_fix scenario_E =
    \<lparr>x_success = False, x_fixed = scenario_E, x_original = scenario_E, x_fixes = [],
     x_data = None, x_errors = detectCriticalErrors scenario_E, x_method = None,
     x_canTryAI = True\<rparr>"
    by (rule xml_fix_rejected)
  then show ?thesis
    using two_selfclosing_roots_spec two_selfclosing_roots_checks two_selfclosing_roots_fix
      second_root_selfclosing_spec second_root_selfclosing_checks second_root_selfclosing_fix
      text_before_digit_tag_spec text_before_digit_tag_checks text_before_digit_tag_fix
      scenario_E_spec scenario_E_critical
    by (simp add: two_selfclosing_roots_def second_root_selfclosing_def
        text_before_digit_tag_def scenario_E_def)
qed

section \<open>C3: position-aware repair of unclosed tags\<close>

lemma nested_unclosed_insertions:
  "fixUnclosedTags nested_unclosed =
     ([''name'', ''item''], ''<root><item><name>v</item>\<newline></name>\<newline></item></root>'')"
  by code_simp

lemma nested_unclosed_fix:
  "xml_fix nested_unclosed =
     \<lparr>x_success = False,
      x_fixed = xml_declaration @ ''<root><item><name>v</item>\<newline></name>\<newline></item>'',
      x_original = nested_unclosed,
      x_fixes = [AddedXMLDeclaration, FixedUnclosedTags 2 [''name'', ''item''],
                 FixedMismatchedTags ''name'' ''item'', FixedMismatchedTags ''item'' ''name'',
                 FixedMismatchedTags ''root'' ''item'', RemovedUnmatchedClosingTag ''root''],
      x_data = None,
      x_errors = [MismatchedTags ''name'' ''item'', MismatchedTags ''item'' ''name'',
                  MismatchedTags ''root'' ''item''],
      x_method = Some ''rules'', x_canTryAI = True\<rparr>"
  by code_simp

lemma scenario_B_insertions:
  "fixUnclosedTags scenario_B =
     ([''item'', ''root''], ''<root><item>v</root>\<newline></item>\<newline></root>'')"
  by code_simp

lemma scenario_B_fix:
  "xml_fix scenario_B =
     \<lparr>x_success = True,
      x_fixed = xml_declaration @ ''<root><item>v\<newline></item>\<newline></root>'',
      x_original = scenario_B,
      x_fixes = [AddedXMLDeclaration, FixedUnclosedTags 2 [''item'', ''root''],
                 FixedMismatchedTags ''item'' ''root'', FixedMismatchedTags ''root'' ''item'',
                 RemovedUnmatchedClosingTag ''root''],
      x_data = Some (xml_declaration @ ''<root><item>v\<newline></item>\<newline></root>''),
      x_errors = [],
      x_method = Some ''rules'', x_canTryAI = False\<rparr>"
  by code_simp

text \<open>
  C3 says that on a closing tag that matches a name deeper in the stack, a closing tag is
  synthesized for each unclosed tag above it, at the position of that closing tag.  The
  loop \<^verbatim>\<open>while (tagStack.length > indexInStack)\<close> pops the matching tag too and
  records a closing tag for it, and the \<^verbatim>\<open>tagStack.pop()\<close> after it (commented
  ``Remove the matching tag'') then pops the tag below; insertions at one position are
  spliced in one after the other, so they end up in reverse order.  What the code
  returns: on \<^verbatim>\<open><root><item><name>v</item></root>\<close> the pass reports \<open>name\<close> and
  \<open>item\<close> as unclosed and puts \<^verbatim>\<open></name>\<close> after the \<^verbatim>\<open></item>\<close> it adds, and
  \<^verbatim>\<open>fix\<close> fails; on Scenario B the pass reports two unclosed tags, \<open>item\<close> and
  \<open>root\<close>, and the text comes out well-formed only because the balance sweep deletes
  the first \<^verbatim>\<open></root>\<close>.
\<close>

theorem C3_unclosed_repair_pops_matching_tag:
  "fixUnclosedTags ''<root><item><name>v</item></root>'' =
     ([''name'', ''item''], ''<root><item><name>v</item>\<newline></name>\<newline></item></root>'')
   \<and> \<not> x_success (xml_fix ''<root><item><name>v</item></root>'')
   \<and> x_fixed (xml_fix ''<root><item><name>v</item></root>'') =
       xml_declaration @ ''<root><item><name>v</item>\<newline></name>\<newline></item>''
   \<and> fixUnclosedTags ''<root><item>v</root>'' =
       ([''item'', ''root''], ''<root><item>v</root>\<newline></item>\<newline></root>'')
   \<and> x_success (xml_fix ''<root><item>v</root>'')
   \<and> x_fixed (xml_fix ''<root><item>v</root>'') =
       xml_declaration @ ''<root><item>v\<newline></item>\<newline></root>''
   \<and> x_fixes (xml_fix ''<root><item>v</root>'') =
       [AddedXMLDeclaration, FixedUnclosedTags 2 [''item'', ''root''],
        FixedMismatchedTags ''item'' ''root'', FixedMismatchedTags ''root'' ''item'',
        RemovedUnmatchedClosingTag ''root'']"
  using nested_unclosed_insertions nested_unclosed_fix scenario_B_insertions scenario_B_fix
  by (simp add: nested_unclosed_def scenario_B_def)

section \<open>C9: comments, CDATA and processing instructions in the tag scans\<close>

lemma cdata_test_tags:
  "map tname (unclosed_tags_of cdata_test_input) = [''root'', ''data'', ''root'']"
  by code_simp

lemma cdata_test_validates: "p_success (xml_parse cdata_test_input)"
  by code_simp

lemma cdata_test_fix:
  "xml_fix cdata_test_input =
     \<lparr>x_success = True,
      x_fixed = xml_declaration @ ''<root><![CDATA[<data>]]>\<newline>\<newline></root>'',
      x_original = cdata_test_input,
      x_fixes = [AddedXMLDeclaration, FixedUnclosedTags 2 [''data'', ''root''],
                 RemovedUnmatchedClosingTag ''data'', RemovedUnmatchedClosingTag ''root''],
      x_data = Some (xml_declaration @ ''<root><![CDATA[<data>]]>\<newline>\<newline></root>''),
      x_errors = [],
      x_method = Some ''rules'', x_canTryAI = False\<rparr>"
  by code_simp

lemma comment_tags:
  "map tname (unclosed_tags_of ''<a><!-- <b> --></a>'') = [''a'', ''b'', ''a'']"
  by code_simp

text \<open>
  C9 says that no text inside a CDATA section, a comment or a processing instruction is
  taken for a tag in any tag scan.  \<^verbatim>\<open>_fixUnclosedTags\<close> scans the text as it is and
  skips a match only when its captured name starts with \<^verbatim>\<open>?\<close> or \<^verbatim>\<open>!\<close>, which
  a name captured by \<^verbatim>\<open>[a-zA-Z][a-zA-Z0-9:_-]*\<close> never does.  On the input of the
  repository's \<^verbatim>\<open>test-cdata.js\<close>, which the engine's parse accepts, the pass takes
  \<^verbatim>\<open><data>\<close> inside the CDATA section for an opening tag and \<^verbatim>\<open>fix\<close> reports two
  unclosed tags; a tag inside a comment is tokenized in the same way.
\<close>

theorem C9_unclosed_scan_reads_cdata:
  "p_success (xml_parse ''<root><![CDATA[<data>]]></root>'')
   \<and> map tname (unclosed_tags_of ''<root><![CDATA[<data>]]></root>'') = [''root'', ''data'', ''root'']
   \<and> x_fixes (xml_fix ''<root><![CDATA[<data>]]></root>'') =
       [AddedXMLDeclaration, FixedUnclosedTags 2 [''data'', ''root''],
        RemovedUnmatchedClosingTag ''data'', RemovedUnmatchedClosingTag ''root'']
   \<and> x_fixed (xml_fix ''<root><![CDATA[<data>]]></root>'') =
       xml_declaration @ ''<root><![CDATA[<data>]]>\<newline>\<newline></root>''
   \<and> map tname (unclosed_tags_of ''<a><!-- <b> --></a>'') = [''a'', ''b'', ''a'']"
  using cdata_test_tags cdata_test_validates cdata_test_fix comment_tags
  by (simp add: cdata_test_input_def)

section \<open>C10: the balance sweep deletes the first occurrence\<close>

lemma index_of_first:
  "index_of s p = Some i \<Longrightarrow>
     starts_with (drop i s) p \<and> (\<forall>j<i. \<not> starts_with (drop j s) p)"
proof (induction s arbitrary: i)
  case Nil
  then show ?case by (simp add: starts_with_def split: if_splits)
next
  case (Cons c cs)
  show ?case
  proof (cases "starts_with (c # cs) p")
    case True
    with Cons.prems show ?thesis by simp
  next
    case False
    with Cons.prems obtain k where k: "index_of cs p = Some k" "i = Suc k"
      by (auto split: option.splits)
    from Cons.IH [OF k(1)] have ih: "starts_with (drop k cs) p"
      "\<forall>j<k. \<not> starts_with (drop j cs) p" by simp_all
    have "\<not> starts_with (drop j (c # cs)) p" if "j < Suc k" for j
      using that False ih(2) by (cases j) simp_all
    with ih(1) k(2) show ?thesis by simp
  qed
qed

lemma cdata_closing_balance:
  "balanceTags cdata_closing = (''<a><![CDATA[]]></a></b>'', [RemovedUnmatchedClosingTag ''b''])"
  by code_simp

lemma cdata_closing_scan:
  "map (\<lambda>t. (fullTag t, tpos t)) (scan_tags cdata_closing) =
     [(''<a>'', 0), (''</b>'', 12), (''</a>'', 19), (''</b>'', 23)]"
  by code_simp

text \<open>
  C10: when the balance sweep meets a closing tag while its stack is empty, it deletes
  the first occurrence of the text of that tag in the current document
  (\<^verbatim>\<open>balanced.replace(current.fullTag, '')\<close>), wherever the scanned tag is; with
  \<^verbatim>\<open><a><![CDATA[</b>]]></a></b>\<close> the tag without a match is the last one, at offset
  23, and what is deleted is the text inside the CDATA section, at offset 12.
\<close>

theorem C10_balance_deletes_first_occurrence:
  "(isClosing t \<longrightarrow>
      balance_step ([], notes, balanced) t =
        ([], notes @ [RemovedUnmatchedClosingTag (tname t)],
         js_replace_first (fullTag t) [] balanced))
   \<and> (index_of balanced (fullTag t) = Some i \<longrightarrow>
        js_replace_first (fullTag t) [] balanced
          = take i balanced @ drop (i + length (fullTag t)) balanced
        \<and> starts_with (drop i balanced) (fullTag t)
        \<and> (\<forall>j<i. \<not> starts_with (drop j balanced) (fullTag t)))
   \<and> balanceTags ''<a><![CDATA[</b>]]></a></b>''
        = (''<a><![CDATA[]]></a></b>'', [RemovedUnmatchedClosingTag ''b''])
   \<and> map (\<lambda>t. (fullTag t, tpos t)) (scan_tags ''<a><![CDATA[</b>]]></a></b>'')
        = [(''<a>'', 0), (''</b>'', 12), (''</a>'', 19), (''</b>'', 23)]"
proof -
  have "js_replace_first (fullTag t) [] balanced
          = take i balanced @ drop (i + length (fullTag t)) balanced"
    if "index_of balanced (fullTag t) = Some i"
    using that by (simp add: js_replace_first_def)
  then show ?thesis
    using cdata_closing_balance cdata_closing_scan index_of_first [of balanced "fullTag t" i]
    by (simp add: balance_step_def cdata_closing_def)
qed

lemma cdata_closing_index: "index_of cdata_closing ''</b>'' = Some 12"
  by code_simp

theorem C10_balance_deletes_first_occurrence_witness:
  "isClosing last_b_tag
   \<and> index_of cdata_closing (fullTag last_b_tag) = Some 12
   \<and> balance_step ([], [], cdata_closing) last_b_tag =
       ([], [RemovedUnmatchedClosingTag ''b''], ''<a><![CDATA[]]></a></b>'')"
proof -
  have a: "isClosing last_b_tag"
    by (simp add: last_b_tag_def)
  have b: "index_of cdata_closing (fullTag last_b_tag) = Some 12"
    using cdata_closing_index by (simp add: last_b_tag_def)
  from C10_balance_deletes_first_occurrence [of last_b_tag "[]" cdata_closing 12] a b
  have "balance_step ([], [], cdata_closing) last_b_tag =
          ([], [RemovedUnmatchedClosingTag ''b''],
           take 12 cdata_closing @ drop (12 + length (fullTag last_b_tag)) cdata_closing)"
    by (simp add: last_b_tag_def)
  then show ?thesis
    using a b by (simp add: last_b_tag_def cdata_closing_def)
qed

section \<open>C4: the similarity test\<close>

subsection \<open>The table computes the Levenshtein recurrence\<close>

lemma lev_row_length:
  "length prev = Suc (length ds) \<Longrightarrow> length (lev_row c ds prev left) = length ds"
proof (induction ds arbitrary: prev left)
  case Nil
  then show ?case by simp
next
  case (Cons d ds)
  then obtain diag up prev' where p: "prev = diag # up # prev'"
    by (cases prev; cases "tl prev") auto
  with Cons show ?case by (simp add: Let_def)
qed

lemma lev_row_nth:
  "length prev = Suc (length ds) \<Longrightarrow> j < length ds \<Longrightarrow>
   lev_row c ds prev left ! j =
     (if c = ds ! j then prev ! j
      else min (prev ! Suc j + 1) (min ((left # lev_row c ds prev left) ! j + 1) (prev ! j + 1)))"
proof (induction ds arbitrary: prev left j)
  case Nil
  then show ?case by simp
next
  case (Cons d ds)
  then obtain diag up prev' where p: "prev = diag # up # prev'"
    by (cases prev; cases "tl prev") auto
  show ?case
  proof (cases j)
    case 0
    with p show ?thesis by (simp add: Let_def)
  next
    case (Suc k)
    with Cons.prems p have "length (up # prev') = Suc (length ds)" "k < length ds" by simp_all
    from Cons.IH [OF this] Suc p show ?thesis by (simp add: Let_def)
  qed
qed

lemma map_upt_nth: "j \<le> n \<Longrightarrow> map f [0..<Suc n] ! j = f j"
  by (simp del: upt_Suc)

lemma next_row_cells:
  assumes "i < length s"
  shows "next_row t (map (lev_cell s t i) [0..<Suc (length t)]) (Suc i, s ! i)
         = map (lev_cell s t (Suc i)) [0..<Suc (length t)]"
proof -
  let ?prev = "map (lev_cell s t i) [0..<Suc (length t)]"
  let ?row = "lev_row (s ! i) t ?prev (Suc i)"
  have len: "length ?row = length t"
    by (rule lev_row_length) simp
  have cell: "(Suc i # ?row) ! j = lev_cell s t (Suc i) j" if "j \<le> length t" for j
    using that
  proof (induction j)
    case 0
    then show ?case by simp
  next
    case (Suc k)
    then have k: "k < length t" by simp
    have "?row ! k =
      (if s ! i = t ! k then ?prev ! k
       else min (?prev ! Suc k + 1) (min ((Suc i # ?row) ! k + 1) (?prev ! k + 1)))"
      by (rule lev_row_nth) (use k in simp_all)
    moreover have "?prev ! k = lev_cell s t i k" "?prev ! Suc k = lev_cell s t i (Suc k)"
      using k by (simp_all add: map_upt_nth del: upt_Suc)
    moreover have "(Suc i # ?row) ! k = lev_cell s t (Suc i) k"
      using Suc by simp
    ultimately show ?case by simp
  qed
  show ?thesis
    unfolding next_row_def fst_conv snd_conv
  proof (rule nth_equalityI)
    show "length (Suc i # ?row) = length (map (lev_cell s t (Suc i)) [0..<Suc (length t)])"
      using len by simp
  next
    fix j assume "j < length (Suc i # ?row)"
    then have "j \<le> length t" using len by simp
    then show "(Suc i # ?row) ! j = map (lev_cell s t (Suc i)) [0..<Suc (length t)] ! j"
      using cell [of j] by (simp add: map_upt_nth del: upt_Suc)
  qed
qed

lemma lev_table_prefix:
  "i \<le> length s \<Longrightarrow>
   foldl (next_row t) [0..<Suc (length t)] (zip [1..<Suc i] (take i s))
     = map (lev_cell s t i) [0..<Suc (length t)]"
proof (induction i)
  case 0
  show ?case by (simp add: map_idI del: upt_Suc)
next
  case (Suc i)
  then have i: "i < length s" by simp
  have "zip [1..<Suc (Suc i)] (take (Suc i) s) = zip [1..<Suc i] (take i s) @ [(Suc i, s ! i)]"
    using i by (simp add: take_Suc_conv_app_nth)
  then show ?case
    using Suc.IH i next_row_cells [OF i, of t] by simp
qed

lemma levenshteinDistance_cell:
  "levenshteinDistance s t = lev_cell s t (length s) (length t)"
proof -
  have "lev_table s t = map (lev_cell s t (length s)) [0..<Suc (length t)]"
    unfolding lev_table_def using lev_table_prefix [of "length s" s t] by simp
  then show ?thesis
    by (simp add: levenshteinDistance_def last_map del: upt_Suc)
qed

lemma lev_cell_diag: "i \<le> length s \<Longrightarrow> lev_cell s s i i = 0"
  by (induction i) simp_all

lemma levenshteinDistance_same: "levenshteinDistance s s = 0"
  by (simp add: levenshteinDistance_cell lev_cell_diag)

subsection \<open>Every replacement passed the similarity test\<close>

lemma mismatch_step_sound:
  assumes "list_all sound_replacement (snd (snd st))"
  shows "list_all sound_replacement (snd (snd (mismatch_step ranges st t)))"
  using assms
  by (cases st) (auto simp: mismatch_step_def Let_def sound_replacement_def)

lemma mismatch_fold_sound:
  "list_all sound_replacement (snd (snd st)) \<Longrightarrow>
   list_all sound_replacement (snd (snd (foldl (mismatch_step ranges) st ts)))"
  by (induction ts arbitrary: st) (simp_all add: mismatch_step_sound)

lemma mismatch_replacements_sound:
  "list_all sound_replacement (mismatch_replacements xml)"
  unfolding mismatch_replacements_def mismatch_scan_def
  by (rule mismatch_fold_sound) simp

lemma similar_not_plural:
  "isSimilarTag e a \<Longrightarrow> e \<noteq> a \<Longrightarrow> \<not> plural_pair e a"
  by (auto simp: isSimilarTag_def split: if_splits)

lemma plural_pair_irrefl: "\<not> plural_pair a a"
  by (simp add: plural_pair_def)

subsection \<open>Scenario C and the plural example\<close>

lemma scenario_C_fix:
  "xml_fix scenario_C =
     \<lparr>x_success = True, x_fixed = xml_declaration @ ''<product>v</product>'',
      x_original = scenario_C,
      x_fixes = [AddedXMLDeclaration, FixedMismatchedTag ''product1'' ''product''],
      x_data = Some (xml_declaration @ ''<product>v</product>''), x_errors = [],
      x_method = Some ''rules'', x_canTryAI = False\<rparr>"
  by code_simp

lemma scenario_C_text:
  "str_includes (xml_declaration @ ''<product>v</product>'') ''</product>''
   \<and> \<not> str_includes (xml_declaration @ ''<product>v</product>'') ''</product1>''"
  by code_simp

lemma scenario_C_replacements:
  "mismatch_replacements scenario_C =
     [\<lparr>r_position = 10, oldTag = ''</product1>'', newTag = ''</product>'',
       r_original = ''product1'', r_corrected = ''product''\<rparr>]"
  by code_simp

lemma plural_example_untouched:
  "fixMismatchedTags (xml_declaration @ ''<items><item>x</items>'')
     = (xml_declaration @ ''<items><item>x</items>'', [])"
  by code_simp

text \<open>
  C4: the similarity test holds exactly when the two names are not a plural/singular
  pair and one is the other with a numeric suffix or their Levenshtein distance (the
  recurrence that the table of \<^verbatim>\<open>_levenshteinDistance\<close> computes) is at most 1; so a
  name and the same name with a trailing \<open>s\<close> are never similar, every replacement that
  the mismatched-tag pass records is of a closing tag by the tag of a similar name that
  is not its plural or singular, and on Scenario C \<^verbatim>\<open>fix\<close> succeeds, writes
  \<^verbatim>\<open></product>\<close> for \<^verbatim>\<open></product1>\<close> and reports that one mismatched-tag fix.
\<close>

theorem C4_similarity_test:
  "(isSimilarTag e a \<longleftrightarrow>
      \<not> plural_pair e a
      \<and> (numeric_suffix e a \<or> numeric_suffix a e \<or> levenshteinDistance e a \<le> 1))
   \<and> levenshteinDistance e a = lev_cell e a (length e) (length a)
   \<and> \<not> isSimilarTag n (n @ ''s'') \<and> \<not> isSimilarTag (n @ ''s'') n
   \<and> (\<forall>rep \<in> set (mismatch_replacements xml).
         isSimilarTag (r_corrected rep) (r_original rep)
         \<and> \<not> plural_pair (r_corrected rep) (r_original rep)
         \<and> newTag rep = ''</'' @ r_corrected rep @ ''>'')
   \<and> fixMismatchedTags xml
       = (foldl apply_replacement xml (rev (mismatch_replacements xml)), fst (snd (mismatch_scan xml)))
   \<and> x_success (xml_fix ''<product>v</product1>'')
   \<and> x_fixed (xml_fix ''<product>v</product1>'') = xml_declaration @ ''<product>v</product>''
   \<and> str_includes (x_fixed (xml_fix ''<product>v</product1>'')) ''</product>''
   \<and> \<not> str_includes (x_fixed (xml_fix ''<product>v</product1>'')) ''</product1>''
   \<and> x_fixes (xml_fix ''<product>v</product1>'')
       = [AddedXMLDeclaration, FixedMismatchedTag ''product1'' ''product'']
   \<and> fixMismatchedTags (xml_declaration @ ''<items><item>x</items>'')
       = (xml_declaration @ ''<items><item>x</items>'', [])"
proof -
  have iff: "isSimilarTag e a \<longleftrightarrow>
      \<not> plural_pair e a
      \<and> (numeric_suffix e a \<or> numeric_suffix a e \<or> levenshteinDistance e a \<le> 1)"
  proof (cases "e = a")
    case True
    then show ?thesis
      by (simp add: isSimilarTag_def plural_pair_irrefl levenshteinDistance_same)
  next
    case False
    then show ?thesis
      by (simp add: isSimilarTag_def)
  qed
  have plural: "\<not> isSimilarTag n (n @ ''s'')" "\<not> isSimilarTag (n @ ''s'') n"
    by (simp_all add: isSimilarTag_def plural_pair_def)
  have reps: "isSimilarTag (r_corrected rep) (r_original rep)
         \<and> \<not> plural_pair (r_corrected rep) (r_original rep)
         \<and> newTag rep = ''</'' @ r_corrected rep @ ''>''"
    if "rep \<in> set (mismatch_replacements xml)" for rep
  proof -
    from that mismatch_replacements_sound [of xml] have "sound_replacement rep"
      by (simp add: list_all_iff)
    then show ?thesis
      by (simp add: sound_replacement_def similar_not_plural)
  qed
  have pass: "fixMismatchedTags xml
       = (foldl apply_replacement xml (rev (mismatch_replacements xml)), fst (snd (mismatch_scan xml)))"
    by (simp add: fixMismatchedTags_def mismatch_replacements_def split: prod.split)
  have c: "x_success (xml_fix ''<product>v</product1>'')"
    "x_fixed (xml_fix ''<product>v</product1>'') = xml_declaration @ ''<product>v</product>''"
    "x_fixes (xml_fix ''<product>v</product1>'')
       = [AddedXMLDeclaration, FixedMismatchedTag ''product1'' ''product'']"
    using scenario_C_fix by (simp_all add: scenario_C_def)
  from iff levenshteinDistance_cell [of e a] plural reps pass c scenario_C_text
    plural_example_untouched
  show ?thesis
    by simp
qed

theorem C4_similarity_test_witness:
  "isSimilarTag ''product'' ''product1''
   \<and> \<not> plural_pair ''product'' ''product1''
   \<and> numeric_suffix ''product'' ''product1''
   \<and> \<not> isSimilarTag ''item'' ''items'' \<and> \<not> isSimilarTag ''items'' ''item''"
proof -
  let ?rep = "\<lparr>r_position = 10, oldTag = ''</product1>'', newTag = ''</product>'',
       r_original = ''product1'', r_corrected = ''product''\<rparr>"
  have m: "?rep \<in> set (mismatch_replacements scenario_C)"
    by (simp add: scenario_C_replacements)
  have n: "numeric_suffix ''product'' ''product1''"
    by code_simp
  from C4_similarity_test [of "''product''" "''product1''" "''item''" scenario_C] m
  have "isSimilarTag (r_corrected ?rep) (r_original ?rep)
        \<and> \<not> plural_pair (r_corrected ?rep) (r_original ?rep)"
    and "\<not> isSimilarTag ''item'' (''item'' @ ''s'')"
    and "\<not> isSimilarTag (''item'' @ ''s'') ''item''"
    by blast+
  with n show ?thesis
    by simp
qed

section \<open>C5: a second pass\<close>

lemma double_comma_first_pass:
  "json_fix double_comma =
     \<lparr>j_success = False, j_fixed = ''[1,]'', j_original = double_comma,
      j_fixes = [RemovedTrailingCommas], j_data = None, j_errors = [JsonParseError]\<rparr>"
  by code_simp

lemma double_comma_second_pass:
  "json_fix ''[1,]'' =
     \<lparr>j_success = True, j_fixed = ''[1]'', j_original = ''[1,]'',
      j_fixes = [RemovedTrailingCommas], j_data = Some (JArray [JNumber ''1'']),
      j_errors = []\<rparr>"
  by code_simp

lemma two_unquoted_first_pass:
  \<open>xml_fix two_unquoted =
     \<lparr>x_success = True, x_fixed = xml_declaration @ ''<a b=c d="e">x</a>'',
      x_original = two_unquoted,
      x_fixes = [AddedXMLDeclaration, AddedQuotesToAttributes],
      x_data = Some (xml_declaration @ ''<a b=c d="e">x</a>''), x_errors = [],
      x_method = Some ''rules'', x_canTryAI = False\<rparr>\<close>
  by code_simp

lemma two_unquoted_second_pass:
  \<open>xml_fix (xml_declaration @ ''<a b=c d="e">x</a>'') =
     \<lparr>x_success = True, x_fixed = xml_declaration @ ''<a b="c" d="e">x</a>'',
      x_original = xml_declaration @ ''<a b=c d="e">x</a>'',
      x_fixes = [AddedQuotesToAttributes],
      x_data = Some (xml_declaration @ ''<a b="c" d="e">x</a>''), x_errors = [],
      x_method = Some ''rules'', x_canTryAI = False\<rparr>\<close>
  by code_simp

lemma noisy_fixed_point_fix:
  "xml_fix noisy_fixed_point =
     \<lparr>x_success = False, x_fixed = noisy_fixed_point, x_original = noisy_fixed_point,
      x_fixes = [FixedMismatchedTags ''bb'' ''aa'', FixedMismatchedTags ''aa'' ''bb''],
      x_data = None,
      x_errors = [MismatchedTags ''bb'' ''aa'', MismatchedTags ''aa'' ''bb''],
      x_method = Some ''rules'', x_canTryAI = True\<rparr>"
  by code_simp

text \<open>
  C5, as stated: \<^verbatim>\<open>fix\<close> is idempotent on both engines, and the second call applies no
  fix.  Each rule is one pass of a regular expression or scanner, and one pass does not
  reach a fixed point: the trailing-comma rule removes one comma per closing bracket, so
  the JSON engine turns \<^verbatim>\<open>[1,,]\<close> into \<^verbatim>\<open>[1,]\<close> and that into \<^verbatim>\<open>[1]\<close>; the
  attribute rule quotes one attribute per tag, so the XML engine needs two passes for
  \<^verbatim>\<open><a b=c d=e>\<close>.  Both second passes report a fix.  And a text that \<^verbatim>\<open>fix\<close>
  returns unchanged need not come with an empty list: on the declared document
  \<^verbatim>\<open><aa><bb><!--</bb><--></aa><!--<bb><--></bb>\<close> the balance sweep reports two
  mismatches on every pass and changes nothing.
\<close>

theorem C5_counterexample:
  "j_fixed (json_fix (j_fixed (json_fix ''[1,,]''))) \<noteq> j_fixed (json_fix ''[1,,]'')
   \<and> j_fixes (json_fix (j_fixed (json_fix ''[1,,]''))) \<noteq> []
   \<and> x_fixed (xml_fix (x_fixed (xml_fix ''<a b=c d=e>x</a>'')))
       \<noteq> x_fixed (xml_fix ''<a b=c d=e>x</a>'')
   \<and> x_fixes (xml_fix (x_fixed (xml_fix ''<a b=c d=e>x</a>''))) \<noteq> []
   \<and> x_fixed (xml_fix (xml_declaration @ ''<aa><bb><!--</bb><--></aa><!--<bb><--></bb>''))
       = xml_declaration @ ''<aa><bb><!--</bb><--></aa><!--<bb><--></bb>''
   \<and> x_fixes (xml_fix (x_fixed
         (xml_fix (xml_declaration @ ''<aa><bb><!--</bb><--></aa><!--<bb><--></bb>''))))
       = [FixedMismatchedTags ''bb'' ''aa'', FixedMismatchedTags ''aa'' ''bb'']"
  using double_comma_first_pass double_comma_second_pass
    two_unquoted_first_pass two_unquoted_second_pass noisy_fixed_point_fix
  by (simp add: double_comma_def two_unquoted_def noisy_fixed_point_def)

subsection \<open>A pass of the XML engine that reports nothing changes nothing\<close>

lemma fix1_declaration_quiet: "snd (fix1_declaration p) = [] \<Longrightarrow> fix1_declaration p = p"
  by (cases p) (simp add: fix1_declaration_def split: if_splits)

lemma fix2_mismatched_quiet: "snd (fix2_mismatched p) = [] \<Longrightarrow> fix2_mismatched p = p"
  by (cases p) (simp add: fix2_mismatched_def split: prod.splits if_splits)

lemma fix3_unclosed_quiet: "snd (fix3_unclosed p) = [] \<Longrightarrow> fix3_unclosed p = p"
  by (cases p) (simp add: fix3_unclosed_def split: prod.splits if_splits)

lemma rewrite_step_quiet: "snd (rewrite_step f note p) = [] \<Longrightarrow> rewrite_step f note p = p"
  by (cases p) (simp add: rewrite_step_def split: if_splits)

lemma fix9_balance_quiet: "snd (fix9_balance p) = [] \<Longrightarrow> fix9_balance p = p"
  by (cases p) (simp add: fix9_balance_def split: prod.splits if_splits)

lemma xml_rules_quiet:
  assumes "snd (xml_rules x) = []"
  shows "xml_rules x = (x, [])"
proof -
  define p1 where "p1 = fix1_declaration (x, [])"
  define p2 where "p2 = fix2_mismatched p1"
  define p3 where "p3 = fix3_unclosed p2"
  define p4 where "p4 = rewrite_step (replace_all unclosed_quote_match) FixedUnclosedAttributeQuotes p3"
  define p5 where "p5 = rewrite_step (replace_all missing_equals_match) FixedMissingEquals p4"
  define p6 where "p6 = rewrite_step escapeSpecialChars EscapedSpecialCharacters p5"
  define p7 where "p7 = rewrite_step (replace_all attr_quote_match) AddedQuotesToAttributes p6"
  define p8 where "p8 = rewrite_step
      (\<lambda>s. replace_all invalid_close_match (replace_all invalid_open_match s))
      FixedInvalidTagNames p7"
  have r: "xml_rules x = fix9_balance p8"
    by (simp add: xml_rules_def p1_def p2_def p3_def p4_def p5_def p6_def p7_def p8_def)
  with assms have "snd (fix9_balance p8) = []" by simp
  then have e9: "fix9_balance p8 = p8" by (rule fix9_balance_quiet)
  with \<open>snd (fix9_balance p8) = []\<close> have "snd p8 = []" by simp
  then have e8: "p8 = p7" unfolding p8_def by (rule rewrite_step_quiet)
  with \<open>snd p8 = []\<close> have "snd p7 = []" by simp
  then have e7: "p7 = p6" unfolding p7_def by (rule rewrite_step_quiet)
  with \<open>snd p7 = []\<close> have "snd p6 = []" by simp
  then have e6: "p6 = p5" unfolding p6_def by (rule rewrite_step_quiet)
  with \<open>snd p6 = []\<close> have "snd p5 = []" by simp
  then have e5: "p5 = p4" unfolding p5_def by (rule rewrite_step_quiet)
  with \<open>snd p5 = []\<close> have "snd p4 = []" by simp
  then have e4: "p4 = p3" unfolding p4_def by (rule rewrite_step_quiet)
  with \<open>snd p4 = []\<close> have "snd p3 = []" by simp
  then have e3: "p3 = p2" unfolding p3_def by (rule fix3_unclosed_quiet)
  with \<open>snd p3 = []\<close> have "snd p2 = []" by simp
  then have e2: "p2 = p1" unfolding p2_def by (rule fix2_mismatched_quiet)
  with \<open>snd p2 = []\<close> have "snd p1 = []" by simp
  then have e1: "p1 = (x, [])" unfolding p1_def by (rule fix1_declaration_quiet)
  from r e9 e8 e7 e6 e5 e4 e3 e2 e1 show ?thesis by simp
qed

lemma xml_fix_quiet:
  assumes "x_fixes (xml_fix x) = []"
  shows "x_fixed (xml_fix x) = x"
proof (cases "detectCriticalErrors x = []")
  case False
  then show ?thesis by (simp add: xml_fix_rejected)
next
  case True
  with assms have "snd (xml_rules x) = []"
    by (simp add: xml_fix_def Let_def split: prod.splits)
  then have "xml_rules x = (x, [])" by (rule xml_rules_quiet)
  with True show ?thesis by (simp add: xml_fix_def Let_def)
qed

subsection \<open>A pass of the JSON engine that reports nothing only normalises literals\<close>

lemma json_rewrite_quiet: "snd (json_rewrite f note p) = [] \<Longrightarrow> json_rewrite f note p = p"
  by (cases p) (simp add: json_rewrite_def split: if_splits)

lemma fix4_trailing_commas_quiet:
  "snd (fix4_trailing_commas p) = [] \<Longrightarrow> fix4_trailing_commas p = p"
  by (cases p) (simp add: fix4_trailing_commas_def split: if_splits)

lemma fix7_braces_quiet: "snd (fix7_braces p) = [] \<Longrightarrow> fix7_braces p = p"
  by (cases p) (simp add: fix7_braces_def Let_def split: if_splits)

lemma fix8_opening_brace_quiet:
  "snd (fix8_opening_brace p) = [] \<Longrightarrow> fix8_opening_brace p = p"
  by (cases p) (simp add: fix8_opening_brace_def split: if_splits)

lemma fix11_literals_notes: "snd (fix11_literals p) = snd p"
  by (cases p) (simp add: fix11_literals_def)

lemma json_rules_quiet:
  assumes "snd (json_rules t) = []"
  shows "fst (json_rules t) = fst (fix11_literals (t, []))"
proof -
  define p1 where "p1 = json_rewrite (replace_all single_quote_match) ConvertedSingleQuotes (t, [])"
  define p2 where "p2 = json_rewrite fixUnclosedStrings FixedUnclosedStrings p1"
  define p3 where "p3 = json_rewrite removeComments RemovedComments p2"
  define p4 where "p4 = fix4_trailing_commas p3"
  define p5 where "p5 = json_rewrite (replace_all unquoted_key_match) QuotedUnquotedKeys p4"
  define p6 where "p6 = json_rewrite addMissingCommas AddedMissingCommas p5"
  define p7 where "p7 = fix7_braces p6"
  define p8 where "p8 = fix8_opening_brace p7"
  define p9 where "p9 = json_rewrite (replace_all leading_zero_match) FixedLeadingZeros p8"
  define p10 where "p10 = json_rewrite (replace_all backslash_match) FixedBackslashes p9"
  have r: "json_rules t = fix11_literals p10"
    by (simp add: json_rules_def p1_def p2_def p3_def p4_def p5_def p6_def p7_def p8_def
        p9_def p10_def)
  with assms have n10: "snd p10 = []" by (simp add: fix11_literals_notes)
  then have e10: "p10 = p9" unfolding p10_def by (rule json_rewrite_quiet)
  with n10 have n9: "snd p9 = []" by simp
  then have e9: "p9 = p8" unfolding p9_def by (rule json_rewrite_quiet)
  with n9 have n8: "snd p8 = []" by simp
  then have e8: "p8 = p7" unfolding p8_def by (rule fix8_opening_brace_quiet)
  with n8 have n7: "snd p7 = []" by simp
  then have e7: "p7 = p6" unfolding p7_def by (rule fix7_braces_quiet)
  with n7 have n6: "snd p6 = []" by simp
  then have e6: "p6 = p5" unfolding p6_def by (rule json_rewrite_quiet)
  with n6 have n5: "snd p5 = []" by simp
  then have e5: "p5 = p4" unfolding p5_def by (rule json_rewrite_quiet)
  with n5 have n4: "snd p4 = []" by simp
  then have e4: "p4 = p3" unfolding p4_def by (rule fix4_trailing_commas_quiet)
  with n4 have n3: "snd p3 = []" by simp
  then have e3: "p3 = p2" unfolding p3_def by (rule json_rewrite_quiet)
  with n3 have n2: "snd p2 = []" by simp
  then have e2: "p2 = p1" unfolding p2_def by (rule json_rewrite_quiet)
  with n2 have n1: "snd p1 = []" by simp
  then have e1: "p1 = (t, [])" unfolding p1_def by (rule json_rewrite_quiet)
  from e10 e9 e8 e7 e6 e5 e4 e3 e2 e1 have "p10 = (t, [])" by simp
  with r show ?thesis by simp
qed

lemma json_fix_quiet:
  assumes "j_fixes (json_fix t) = []"
  shows "j_fixed (json_fix t) = fst (fix11_literals (t, []))"
proof -
  from assms have "snd (json_rules t) = []"
    by (simp add: json_fix_def Let_def split: prod.splits)
  then have "fst (json_rules t) = fst (fix11_literals (t, []))" by (rule json_rules_quiet)
  then show ?thesis by (cases "json_rules t") (simp add: json_fix_def Let_def)
qed

lemma declared_doc_fix:
  \<open>xml_fix declared_doc =
     \<lparr>x_success = True, x_fixed = declared_doc, x_original = declared_doc, x_fixes = [],
      x_data = Some declared_doc, x_errors = [], x_method = Some ''rules'',
      x_canTryAI = False\<rparr>\<close>
  by code_simp

lemma nan_value_fix:
  \<open>json_fix nan_value =
     \<lparr>j_success = True, j_fixed = ''{"a": null}'', j_original = nan_value, j_fixes = [],
      j_data = Some (JObject [(''a'', JNull)]), j_errors = []\<rparr>\<close>
  by code_simp

lemma nan_value_normalised: \<open>fst (fix11_literals (nan_value, [])) = ''{"a": null}''\<close>
  by code_simp

lemma plain_array_fix:
  "json_fix plain_array =
     \<lparr>j_success = True, j_fixed = plain_array, j_original = plain_array, j_fixes = [],
      j_data = Some (JArray [JNumber ''1'']), j_errors = []\<rparr>"
  by code_simp

lemma plain_array_normalised: "fst (fix11_literals (plain_array, [])) = plain_array"
  by code_simp

text \<open>
  C5, amended.  XML engine: whenever \<^verbatim>\<open>fix(text)\<close> reports an empty list of fixes, as
  it does on every input that the pre-flight check rejects, its \<open>fixedText\<close> is \<open>text\<close>;
  so \<^verbatim>\<open>fix(fixedText)\<close> returns the same \<open>fixedText\<close>, with an empty list of fixes.
  JSON engine: whenever \<^verbatim>\<open>fix(text)\<close> reports an empty list of fixes, its \<open>fixedText\<close>
  is \<open>text\<close> after the normalisation of \<^verbatim>\<open>NaN\<close>, \<^verbatim>\<open>Infinity\<close> and
  \<^verbatim>\<open>undefined\<close> of fix 11 alone (which records no fix); when that normalisation leaves
  \<open>text\<close> as it is, \<open>fixedText\<close> is \<open>text\<close>, so \<^verbatim>\<open>fix(fixedText)\<close> returns the same
  \<open>fixedText\<close>, with an empty list of fixes.  Nothing is said of other inputs.
\<close>

theorem C5_idempotent_when_quiet:
  "(x_fixes (xml_fix x) = [] \<longrightarrow>
      x_fixed (xml_fix x) = x
      \<and> x_fixed (xml_fix (x_fixed (xml_fix x))) = x_fixed (xml_fix x)
      \<and> x_fixes (xml_fix (x_fixed (xml_fix x))) = [])
   \<and> (detectCriticalErrors x \<noteq> [] \<longrightarrow> x_fixes (xml_fix x) = [])
   \<and> (j_fixes (json_fix t) = [] \<longrightarrow> j_fixed (json_fix t) = fst (fix11_literals (t, [])))
   \<and> (j_fixes (json_fix t) = [] \<and> fst (fix11_literals (t, [])) = t \<longrightarrow>
        j_fixed (json_fix t) = t
        \<and> j_fixed (json_fix (j_fixed (json_fix t))) = j_fixed (json_fix t)
        \<and> j_fixes (json_fix (j_fixed (json_fix t))) = [])"
proof -
  have j: "j_fixed (json_fix t) = fst (fix11_literals (t, []))" if "j_fixes (json_fix t) = []"
    using that by (rule json_fix_quiet)
  have "j_fixed (json_fix t) = t
        \<and> j_fixed (json_fix (j_fixed (json_fix t))) = j_fixed (json_fix t)
        \<and> j_fixes (json_fix (j_fixed (json_fix t))) = []"
    if "j_fixes (json_fix t) = []" "fst (fix11_literals (t, [])) = t"
    using that j by simp
  with j show ?thesis
    by (simp add: xml_fix_quiet xml_fix_rejected)
qed

theorem C5_idempotent_when_quiet_witness:
  \<open>detectCriticalErrors scenario_E \<noteq> []
   \<and> x_fixes (xml_fix scenario_E) = []
   \<and> x_fixed (xml_fix (x_fixed (xml_fix scenario_E))) = x_fixed (xml_fix scenario_E)
   \<and> x_fixes (xml_fix (x_fixed (xml_fix scenario_E))) = []
   \<and> x_fixes (xml_fix declared_doc) = []
   \<and> x_fixed (xml_fix declared_doc) = declared_doc
   \<and> x_fixed (xml_fix (x_fixed (xml_fix declared_doc))) = x_fixed (xml_fix declared_doc)
   \<and> x_fixes (xml_fix (x_fixed (xml_fix declared_doc))) = []
   \<and> j_fixes (json_fix nan_value) = []
   \<and> j_fixed (json_fix nan_value) = ''{"a": null}''
   \<and> j_fixes (json_fix plain_array) = []
   \<and> fst (fix11_literals (plain_array, [])) = plain_array
   \<and> j_fixed (json_fix plain_array) = plain_array
   \<and> j_fixed (json_fix (j_fixed (json_fix plain_array))) = j_fixed (json_fix plain_array)
   \<and> j_fixes (json_fix (j_fixed (json_fix plain_array))) = []\<close>
proof -
  have h: "detectCriticalErrors scenario_E \<noteq> []"
    by (simp add: scenario_E_critical)
  have q: "x_fixes (xml_fix declared_doc) = []"
    by (simp add: declared_doc_fix)
  have n: "j_fixes (json_fix nan_value) = []"
    by (simp add: nan_value_fix)
  have a: "j_fixes (json_fix plain_array) = []"
    by (simp add: plain_array_fix)
  note b = plain_array_normalised
  from C5_idempotent_when_quiet [of scenario_E nan_value] h n nan_value_normalised
  have e: "x_fixes (xml_fix scenario_E) = []"
    "x_fixed (xml_fix (x_fixed (xml_fix scenario_E))) = x_fixed (xml_fix scenario_E)"
    "x_fixes (xml_fix (x_fixed (xml_fix scenario_E))) = []"
    \<open>j_fixed (json_fix nan_value) = ''{"a": null}''\<close>
    by simp_all
  from C5_idempotent_when_quiet [of declared_doc plain_array] q a b
  have d: "x_fixed (xml_fix declared_doc) = declared_doc"
    "x_fixed (xml_fix (x_fixed (xml_fix declared_doc))) = x_fixed (xml_fix declared_doc)"
    "x_fixes (xml_fix (x_fixed (xml_fix declared_doc))) = []"
    "j_fixed (json_fix plain_array) = plain_array"
    "j_fixed (json_fix (j_fixed (json_fix plain_array))) = j_fixed (json_fix plain_array)"
    "j_fixes (json_fix (j_fixed (json_fix plain_array))) = []"
    by simp_all
  from h q n a b e d show ?thesis
    by simp
qed

section \<open>C6: strictly valid input\<close>

lemma quoted_word_valid:
  \<open>json_decode quoted_word = Some (JArray [JString ''a\'b\'c''])\<close>
  by code_simp

lemma quoted_word_fix:
  \<open>json_fix quoted_word =
     \<lparr>j_success = False, j_fixed = ''["a"b,"c"]'', j_original = quoted_word,
      j_fixes = [ConvertedSingleQuotes, AddedMissingCommas], j_data = None,
      j_errors = [JsonParseError]\<rparr>\<close>
  by code_simp

text \<open>
  C6 says that \<^verbatim>\<open>fix\<close> succeeds on every strictly valid input and keeps its value.
  Fix 1 of the JSON engine rewrites every pair of apostrophes into double quotes, inside
  string literals too: the valid text \<^verbatim>\<open>["a'b'c"]\<close> becomes \<^verbatim>\<open>["a"b"c"]\<close>, the
  comma rule then makes it \<^verbatim>\<open>["a"b,"c"]\<close>, and \<^verbatim>\<open>fix\<close> returns \<open>success = false\<close>.
\<close>

theorem C6_valid_json_not_preserved:
  \<open>json_decode ''["a\'b\'c"]'' = Some (JArray [JString ''a\'b\'c''])
   \<and> \<not> j_success (json_fix ''["a\'b\'c"]'')
   \<and> j_fixed (json_fix ''["a\'b\'c"]'') = ''["a"b,"c"]''
   \<and> j_fixes (json_fix ''["a\'b\'c"]'') = [ConvertedSingleQuotes, AddedMissingCommas]\<close>
  using quoted_word_valid quoted_word_fix
  by (simp add: quoted_word_def)

section \<open>C7: rewrites inside string literals\<close>

lemma comma_in_string_valid:
  \<open>json_decode comma_in_string = Some (JArray [JString ''a,]''])\<close>
  by code_simp

lemma comma_in_string_fix:
  \<open>json_fix comma_in_string =
     \<lparr>j_success = True, j_fixed = ''["a]"]'', j_original = comma_in_string,
      j_fixes = [RemovedTrailingCommas], j_data = Some (JArray [JString ''a]'']),
      j_errors = []\<rparr>\<close>
  by code_simp

lemma zero_in_string_valid:
  \<open>json_decode zero_in_string = Some (JObject [(''t'', JString ''a: 01'')])\<close>
  by code_simp

lemma zero_in_string_fix:
  \<open>json_fix zero_in_string =
     \<lparr>j_success = True, j_fixed = ''{"t": "a: 1"}'', j_original = zero_in_string,
      j_fixes = [FixedLeadingZeros], j_data = Some (JObject [(''t'', JString ''a: 1'')]),
      j_errors = []\<rparr>\<close>
  by code_simp

text \<open>
  C7 says that no rule of the JSON pipeline alters the content of a string literal of a
  text without structural errors.  The trailing-comma rule (fix 4) and the leading-zero
  rule (fix 9) are regular expressions applied to the whole text: in the valid text
  \<^verbatim>\<open>["a,]"]\<close> the comma inside the string is removed, and in \<^verbatim>\<open>{"t": "a: 01"}\<close> the
  zero inside the string is; both results parse, to a different string.
\<close>

theorem C7_string_payload_altered:
  \<open>json_decode ''["a,]"]'' = Some (JArray [JString ''a,]''])
   \<and> j_fixed (json_fix ''["a,]"]'') = ''["a]"]''
   \<and> j_data (json_fix ''["a,]"]'') = Some (JArray [JString ''a]''])
   \<and> j_fixes (json_fix ''["a,]"]'') = [RemovedTrailingCommas]
   \<and> json_decode ''{"t": "a: 01"}'' = Some (JObject [(''t'', JString ''a: 01'')])
   \<and> j_fixed (json_fix ''{"t": "a: 01"}'') = ''{"t": "a: 1"}''
   \<and> j_data (json_fix ''{"t": "a: 01"}'') = Some (JObject [(''t'', JString ''a: 1'')])
   \<and> j_fixes (json_fix ''{"t": "a: 01"}'') = [FixedLeadingZeros]\<close>
  using comma_in_string_valid comma_in_string_fix zero_in_string_valid zero_in_string_fix
  by (simp add: comma_in_string_def zero_in_string_def)

section \<open>C8: a URL inside a string\<close>

lemma url_input_valid:
  \<open>json_decode url_between_apostrophes =
     Some (JArray [JString ''a\'b'', JString ''https://example.com'', JString ''c\'d''])\<close>
  by code_simp

lemma url_input_fix:
  \<open>json_fix url_between_apostrophes =
     \<lparr>j_success = False, j_fixed = ''["a"b,", "https:]'', j_original = url_between_apostrophes,
      j_fixes = [ConvertedSingleQuotes, RemovedComments, AddedMissingCommas,
                 AddedClosingBrackets 1],
      j_data = None, j_errors = [JsonParseError]\<rparr>\<close>
  by code_simp

lemma url_stages:
  \<open>replace_all single_quote_match url_between_apostrophes
     = ''["a"b", "https://example.com", "c"d"]''\<close>
  \<open>fixUnclosedStrings ''["a"b", "https://example.com", "c"d"]''
     = ''["a"b", "https://example.com", "c"d"]''\<close>
  \<open>removeComments ''["a"b", "https://example.com", "c"d"]'' = ''["a"b", "https:''\<close>
  by code_simp+

text \<open>
  C8 says that a string value \<^verbatim>\<open>"https://example.com"\<close> survives \<^verbatim>\<open>fix\<close>.  The
  comment scanner keeps what is inside a string it tracks, but fix 1 runs before it and
  turns the apostrophes of two neighbouring strings into double quotes; from then on
  the scanners see the URL outside any string, and the comment rule cuts the text at
  \<^verbatim>\<open>//\<close>.  The input is strictly valid JSON.
\<close>

theorem C8_url_truncated:
  \<open>json_decode ''["a\'b", "https://example.com", "c\'d"]'' =
     Some (JArray [JString ''a\'b'', JString ''https://example.com'', JString ''c\'d''])
   \<and> replace_all single_quote_match ''["a\'b", "https://example.com", "c\'d"]''
       = ''["a"b", "https://example.com", "c"d"]''
   \<and> removeComments (fixUnclosedStrings ''["a"b", "https://example.com", "c"d"]'')
       = ''["a"b", "https:''
   \<and> j_fixed (json_fix ''["a\'b", "https://example.com", "c\'d"]'') = ''["a"b,", "https:]''
   \<and> \<not> str_includes (j_fixed (json_fix ''["a\'b", "https://example.com", "c\'d"]''))
         ''"https://example.com"''
   \<and> \<not> j_success (json_fix ''["a\'b", "https://example.com", "c\'d"]'')\<close>
proof -
  have \<open>\<not> str_includes ''["a"b,", "https:]'' ''"https://example.com"''\<close>
    by code_simp
  then show ?thesis
    using url_input_valid url_input_fix url_stages
    by (simp add: url_between_apostrophes_def)
qed

end
